theory Spec2Isabelle
  imports Complex_Main "HOL-Library.AList" "HOL-Library.Sublist"
begin

section \<open>The training script \<open>src/model/train.py\<close>\<close>

text \<open>
  The script is a straight-line module: it imports its libraries, reads a feature table,
  normalises it, splits it, loads a cached model or searches and fits a new one, prints an
  evaluation and saves the model. Its effects are made explicit here: the file system is
  a map from paths to nodes, an exception is a value of type \<open>exn\<close>, and a run yields an
  \<open>outcome\<close> holding the stages that were entered, the printed lines, the exception that
  ended the run (if any) and the final file system.

  The calls into pandas, scikit-learn, keras-tuner, matplotlib and pickle are third-party
  code; they are parameters of the model (the record \<open>libs\<close>), each a function that may
  return an exception. This includes the arithmetic of line 17, which pandas carries out
  in 64-bit floating point: the model does not compute it, it takes its results from the
  library.
\<close>

subsection \<open>Tables\<close>

text \<open>
  A cell of a data frame is a 64-bit float (a finite one is the real number it denotes)
  or a piece of text. A data frame is the list of its named columns; a series, the result
  of a column-wise reduction, has one cell for each column label.
\<close>

datatype cell = Num real | PosInf | NegInf | NaN | Str string

type_synonym column = "cell list"
type_synonym dataframe = "(string \<times> column) list"
type_synonym series = "(string \<times> cell) list"

datatype exn =
    FileNotFoundError
  | IsADirectoryError
  | KeyError string
  | OtherError string

text \<open>\<open>df[c]\<close>: the column named \<open>c\<close>, or KeyError.\<close>

definition get_col :: "dataframe \<Rightarrow> string \<Rightarrow> exn + column" where
  "get_col df c = (case map_of df c of None \<Rightarrow> Inl (KeyError c) | Some col \<Rightarrow> Inr col)"

text \<open>\<open>df[c] = col\<close>: replaces the column in place, or appends a new one.\<close>

definition set_col :: "dataframe \<Rightarrow> string \<Rightarrow> column \<Rightarrow> dataframe" where
  "set_col df c col = AList.update c col df"

text \<open>\<open>df.drop(c, axis=1)\<close>: the frame without column \<open>c\<close>, or KeyError.\<close>

definition drop_col :: "dataframe \<Rightarrow> string \<Rightarrow> exn + dataframe" where
  "drop_col df c =
     (if c \<in> fst ` set df then Inr (AList.delete c df) else Inl (KeyError c))"

subsection \<open>Models, hyperparameters and the libraries\<close>

record hyperparameters =
  n_estimators :: int
  criterion :: string
  max_depth :: int
  min_samples_split :: int
  max_features :: string
  max_leaf_nodes :: int
  max_samples :: real

datatype hp_decl =
    HpInt string int int int
  | HpFloat string real real real
  | HpChoice string "string list"

text \<open>The ranges that \<open>build_model\<close> declares (name, minimum, maximum, step).\<close>

definition search_space :: "hp_decl list" where
  "search_space =
     [HpInt ''n_estimators'' 1 500 5,
      HpChoice ''criterion'' [''gini'', ''entropy''],
      HpInt ''max_depth'' 1 20 1,
      HpInt ''min_samples_split'' 2 300 5,
      HpChoice ''max_features'' [''auto'', ''log2''],
      HpInt ''max_leaf_nodes'' 2 250 5,
      HpFloat ''max_samples'' (1 / 100) 1 (1 / 100)]"

record rf_params =
  hp :: hyperparameters
  class_weight :: string
  oob_score :: string

definition build_model :: "hyperparameters \<Rightarrow> rf_params" where
  "build_model h = \<lparr>hp = h, class_weight = ''balanced'', oob_score = ''True''\<rparr>"

datatype direction = Min | Max

datatype scorer = FBeta real

record tuner_config =
  objective :: "string \<times> direction"
  max_trials :: nat
  hypermodel :: "hyperparameters \<Rightarrow> rf_params"
  scoring :: scorer
  cv_folds :: nat
  directory :: string
  project_name :: string

definition tuner :: tuner_config where
  "tuner = \<lparr>objective = (''score'', Max), max_trials = 250, hypermodel = build_model,
            scoring = FBeta 2, cv_folds = 10, directory = ''./model/'',
            project_name = ''random_forest''\<rparr>"

text \<open>
  What \<open>pickle.load\<close> can return: \<open>RandomForestClassifier m\<close> is an object whose type is
  exactly that class, with \<open>m\<close> the fitted estimator; any other object is \<open>OtherObject\<close>
  with the name of its type.
\<close>

datatype 'm pyobj = PyNone | RandomForestClassifier 'm | OtherObject string

datatype node = RegularFile string | Directory

type_synonym filesystem = "string \<rightharpoonup> node"

text \<open>
  The third-party calls of the script, each with the line that makes it:
  \<^item> \<open>import_modules\<close>: the imports of lines 2 to 10, which run library code and may raise;
  \<^item> \<open>parse_csv\<close>: the parsing done by \<open>pd.read_csv\<close> on the bytes of the file (line 13);
  \<^item> \<open>df_mean\<close>, \<open>df_sub\<close>, \<open>df_std\<close>, \<open>df_div\<close>: \<open>ds.mean()\<close>, the subtraction of a
    series from a frame, \<open>ds.std()\<close> and the division of a frame by a series (line 17), in
    floating point;
  \<^item> \<open>train_test_split\<close>: the call of line 29, with the test size and the random state;
  \<^item> \<open>pickle_loads\<close>: unpickling the bytes of the model file (line 69);
  \<^item> \<open>pickle_dump\<close>: pickling the model (line 101), as the bytes written and the exception
    that interrupted the writing, if any;
  \<^item> \<open>tuner_search\<close>: building the tuner, \<open>tuner.search\<close> and the first element of
    \<open>tuner.get_best_hyperparameters()\<close> (lines 76 to 90); the tuner keeps its trials in
    files, so the call takes the file system and returns it changed;
  \<^item> \<open>rf_fit\<close>: constructing and fitting the classifier (lines 93 and 94);
  \<^item> \<open>rf_predict\<close>: \<open>model.predict\<close> (line 48);
  \<^item> \<open>print_metrics\<close>: the confusion matrix, the scores and their prints (lines 49 to
    57), as the lines printed and the exception that interrupted them, if any;
  \<^item> \<open>pr_display\<close>: drawing and showing the precision-recall curve (lines 61 to 64).
\<close>

record 'm libs =
  import_modules :: "exn option"
  parse_csv :: "string \<Rightarrow> exn + dataframe"
  df_mean :: "dataframe \<Rightarrow> exn + series"
  df_sub :: "dataframe \<Rightarrow> series \<Rightarrow> exn + dataframe"
  df_std :: "dataframe \<Rightarrow> exn + series"
  df_div :: "dataframe \<Rightarrow> series \<Rightarrow> exn + dataframe"
  train_test_split ::
    "dataframe \<Rightarrow> column \<Rightarrow> real \<Rightarrow> nat \<Rightarrow> exn + (dataframe \<times> dataframe \<times> column \<times> column)"
  pickle_loads :: "string \<Rightarrow> exn + 'm pyobj"
  pickle_dump :: "'m \<Rightarrow> string \<times> exn option"
  tuner_search ::
    "tuner_config \<Rightarrow> filesystem \<Rightarrow> dataframe \<Rightarrow> column
       \<Rightarrow> (exn + hyperparameters) \<times> filesystem"
  rf_fit :: "rf_params \<Rightarrow> dataframe \<Rightarrow> column \<Rightarrow> exn + 'm"
  rf_predict :: "'m \<Rightarrow> dataframe \<Rightarrow> exn + column"
  print_metrics :: "column \<Rightarrow> column \<Rightarrow> string list \<times> exn option"
  pr_display :: "'m \<Rightarrow> dataframe \<Rightarrow> column \<Rightarrow> exn option"

text \<open>
  Library code can read the command line and the environment of the process it runs in
  (matplotlib reads \<open>MPLBACKEND\<close> when it is imported, for one). An installation gives the
  behaviour of the libraries in a process with the given arguments and environment.
\<close>

type_synonym 'm installation = "string list \<Rightarrow> (string \<rightharpoonup> string) \<Rightarrow> 'm libs"

subsection \<open>Normalisation (lines 17 to 23)\<close>

text \<open>
  Line 17, \<open>(ds - ds.mean()) / ds.std()\<close>: the mean, the difference, the standard
  deviation and the quotient, in the order in which Python evaluates them.
\<close>

definition zscore_frame :: "'m libs \<Rightarrow> dataframe \<Rightarrow> exn + dataframe" where
  "zscore_frame L ds =
     (case df_mean L ds of
        Inl e \<Rightarrow> Inl e
      | Inr mu \<Rightarrow>
          (case df_sub L ds mu of
             Inl e \<Rightarrow> Inl e
           | Inr centred \<Rightarrow>
               (case df_std L ds of
                  Inl e \<Rightarrow> Inl e
                | Inr sd \<Rightarrow> df_div L centred sd)))"

definition raw_columns :: "string list" where
  "raw_columns = [''Class'', ''Length'', ''TFIDF_H'', ''TFIDF_S'', ''TFIDF_J'', ''Z_Length'']"

text \<open>
  Lines 18 to 23, one assignment \<open>normalized_ds[c] = ds[c]\<close> for each listed column
  in turn; reading a column that \<open>ds\<close> lacks raises KeyError.
\<close>

fun restore_cols :: "dataframe \<Rightarrow> string list \<Rightarrow> dataframe \<Rightarrow> exn + dataframe" where
  "restore_cols ds [] nds = Inr nds"
| "restore_cols ds (c # cs) nds =
     (case get_col ds c of
        Inl e \<Rightarrow> Inl e
      | Inr col \<Rightarrow> restore_cols ds cs (set_col nds c col))"

definition normalize :: "'m libs \<Rightarrow> dataframe \<Rightarrow> exn + dataframe" where
  "normalize L ds =
     (case zscore_frame L ds of
        Inl e \<Rightarrow> Inl e
      | Inr normalized_ds \<Rightarrow> restore_cols ds raw_columns normalized_ds)"

subsection \<open>The world of a run\<close>

text \<open>
  A run starts in a world: its command line, its environment variables and the file
  system, a map from paths to regular files (with their bytes) and directories. Paths are
  relative to the working directory and written without a leading \<open>./\<close>.
\<close>

record world =
  argv :: "string list"
  environ :: "string \<rightharpoonup> string"
  files :: filesystem

text \<open>
  The steps of the script. A step is recorded in the trace of a run when it is entered;
  \<open>Serialize\<close> is recorded when \<open>pickle.dump\<close> is about to be called, that is, only past
  the guard of line 100.
\<close>

datatype stage = ReadCsv | Normalize | Split | LoadModel | Search | Fit | Evaluate | Serialize

record outcome =
  trace :: "stage list"
  stdout :: "string list"
  raised :: "exn option"
  files_out :: filesystem

definition csv_path :: string where
  "csv_path = ''data/features.csv''"

definition filename :: string where
  "filename = ''model.sav''"

definition seed :: nat where
  "seed = 12"

text \<open>\<open>open(path, 'rb')\<close> followed by reading the whole file.\<close>

definition open_rb :: "filesystem \<Rightarrow> string \<Rightarrow> exn + string" where
  "open_rb fs path =
     (case fs path of
        None \<Rightarrow> Inl FileNotFoundError
      | Some Directory \<Rightarrow> Inl IsADirectoryError
      | Some (RegularFile b) \<Rightarrow> Inr b)"

definition isfile :: "filesystem \<Rightarrow> string \<Rightarrow> bool" where
  "isfile fs path = (case fs path of Some (RegularFile b) \<Rightarrow> True | _ \<Rightarrow> False)"

text \<open>
  The tuner is created with \<open>directory='./model/'\<close> and keeps its files there. Of the
  changes that the library call makes to the file system, the model keeps those at paths
  in that directory: the tuner is taken to write nowhere else.
\<close>

definition norm_path :: "string \<Rightarrow> string" where
  "norm_path p =
     (let q = (if prefix ''./'' p then drop 2 p else p)
      in if q \<noteq> [] \<and> last q = CHR ''/'' then butlast q else q)"

definition under :: "string \<Rightarrow> string \<Rightarrow> bool" where
  "under d p \<longleftrightarrow> p = d \<or> prefix (d @ ''/'') p"

definition tuner_writes :: "filesystem \<Rightarrow> filesystem \<Rightarrow> filesystem" where
  "tuner_writes fs fs1 =
     (\<lambda>p. if under (norm_path (directory tuner)) p then fs1 p else fs p)"

subsection \<open>The stages\<close>

text \<open>Line 13.\<close>

definition read_features :: "'m libs \<Rightarrow> world \<Rightarrow> exn + dataframe" where
  "read_features L w =
     (case open_rb (files w) csv_path of
        Inl e \<Rightarrow> Inl e
      | Inr b \<Rightarrow> parse_csv L b)"

text \<open>Lines 26 to 29.\<close>

definition split_dataset ::
  "'m libs \<Rightarrow> dataframe \<Rightarrow> exn + (dataframe \<times> dataframe \<times> column \<times> column)" where
  "split_dataset L normalized_ds =
     (case get_col normalized_ds ''Class'' of
        Inl e \<Rightarrow> Inl e
      | Inr y \<Rightarrow>
          (case drop_col normalized_ds ''Class'' of
             Inl e \<Rightarrow> Inl e
           | Inr X \<Rightarrow> train_test_split L X y (2 / 10) seed))"

text \<open>
  Lines 68 to 71. The handler catches FileNotFoundError raised anywhere in
  \<open>pickle.load(open(filename, 'rb'))\<close> and sets \<open>best_model\<close> to \<open>None\<close>; any other
  exception leaves the \<open>try\<close> statement.
\<close>

definition load_model :: "'m libs \<Rightarrow> world \<Rightarrow> exn + 'm pyobj" where
  "load_model L w =
     (case (case open_rb (files w) filename of
              Inl e \<Rightarrow> Inl e
            | Inr b \<Rightarrow> pickle_loads L b) of
        Inl FileNotFoundError \<Rightarrow> Inr PyNone
      | Inl e \<Rightarrow> Inl e
      | Inr obj \<Rightarrow> Inr obj)"

text \<open>
  Lines 76 to 94, the body of the \<open>if\<close>: the stages entered, the fitted model or the
  exception, and the file system as the tuner leaves it.
\<close>

definition search_and_fit ::
  "'m libs \<Rightarrow> filesystem \<Rightarrow> dataframe \<Rightarrow> column \<Rightarrow> stage list \<times> (exn + 'm) \<times> filesystem" where
  "search_and_fit L fs X_train y_train =
     (case tuner_search L tuner fs X_train y_train of
        (Inl e, fs1) \<Rightarrow> ([Search], Inl e, tuner_writes fs fs1)
      | (Inr best_hp, fs1) \<Rightarrow>
          (case rf_fit L (hypermodel tuner best_hp) X_train y_train of
             Inl e \<Rightarrow> ([Search, Fit], Inl e, tuner_writes fs fs1)
           | Inr m \<Rightarrow> ([Search, Fit], Inr m, tuner_writes fs fs1)))"

text \<open>Line 74: \<open>if type(best_model) != RandomForestClassifier\<close>.\<close>

definition choose_model ::
  "'m libs \<Rightarrow> 'm pyobj \<Rightarrow> filesystem \<Rightarrow> dataframe \<Rightarrow> column
     \<Rightarrow> stage list \<times> (exn + 'm) \<times> filesystem" where
  "choose_model L best_model fs X_train y_train =
     (case best_model of
        RandomForestClassifier m \<Rightarrow> ([], Inr m, fs)
      | _ \<Rightarrow> search_and_fit L fs X_train y_train)"

text \<open>
  Lines 47 to 64. The metric computations and their prints are one library call that
  yields the lines printed and the exception that interrupted them, if any. The plot
  reads the globals \<open>X_test\<close> and \<open>y_test\<close>.
\<close>

definition evaluate_model ::
  "'m libs \<Rightarrow> dataframe \<Rightarrow> column \<Rightarrow> 'm \<Rightarrow> dataframe \<Rightarrow> column \<Rightarrow> bool
     \<Rightarrow> string list \<times> exn option" where
  "evaluate_model L X_test y_test model x y_true show_plot =
     (case rf_predict L model x of
        Inl e \<Rightarrow> ([], Some e)
      | Inr y_pred \<Rightarrow>
          (case print_metrics L y_true y_pred of
             (out, Some e) \<Rightarrow> (out, Some e)
           | (out, None) \<Rightarrow>
               if \<not> show_plot then (out, None)
               else (out, pr_display L model X_test y_test)))"

text \<open>
  Lines 100 and 101. \<open>open(filename, 'wb')\<close> creates the file empty; \<open>pickle.dump\<close> then
  writes into it, and what it has written stays if it raises.
\<close>

definition save_model ::
  "'m libs \<Rightarrow> filesystem \<Rightarrow> 'm \<Rightarrow> stage list \<times> exn option \<times> filesystem" where
  "save_model L fs best_model =
     (if \<not> isfile fs filename then
        (case fs filename of
           Some Directory \<Rightarrow> ([Serialize], Some IsADirectoryError, fs)
         | _ \<Rightarrow>
             (case pickle_dump L best_model of
                (b, r) \<Rightarrow> ([Serialize], r, fs(filename \<mapsto> RegularFile b))))
      else ([], None, fs))"

subsection \<open>The script\<close>

definition failed :: "stage list \<Rightarrow> string list \<Rightarrow> exn \<Rightarrow> filesystem \<Rightarrow> outcome" where
  "failed tr out e fs = \<lparr>trace = tr, stdout = out, raised = Some e, files_out = fs\<rparr>"

text \<open>Lines 96 to 101, once a model is at hand.\<close>

definition report_and_save ::
  "'m libs \<Rightarrow> filesystem \<Rightarrow> stage list \<Rightarrow> 'm \<Rightarrow> dataframe \<Rightarrow> column \<Rightarrow> outcome" where
  "report_and_save L fs tr best_model X_test y_test =
     (let header = ''Performance on test set 12:''
      in case evaluate_model L X_test y_test best_model X_test y_test False of
           (out, Some e) \<Rightarrow> failed (tr @ [Evaluate]) (header # out) e fs
         | (out, None) \<Rightarrow>
             (case save_model L fs best_model of
                (tr', r, fs') \<Rightarrow>
                  \<lparr>trace = tr @ [Evaluate] @ tr', stdout = header # out,
                   raised = r, files_out = fs'\<rparr>))"

text \<open>Lines 13 to 101, with the libraries behaving as \<open>L\<close>.\<close>

definition script :: "'m libs \<Rightarrow> world \<Rightarrow> outcome" where
  "script L w =
     (case read_features L w of
        Inl e \<Rightarrow> failed [ReadCsv] [] e (files w)
      | Inr ds \<Rightarrow>
     (case normalize L ds of
        Inl e \<Rightarrow> failed [ReadCsv, Normalize] [] e (files w)
      | Inr normalized_ds \<Rightarrow>
     (case split_dataset L normalized_ds of
        Inl e \<Rightarrow> failed [ReadCsv, Normalize, Split] [] e (files w)
      | Inr (X_train, X_test, y_train, y_test) \<Rightarrow>
     (case load_model L w of
        Inl e \<Rightarrow> failed [ReadCsv, Normalize, Split, LoadModel] [] e (files w)
      | Inr best_model \<Rightarrow>
     (case choose_model L best_model (files w) X_train y_train of
        (tr, Inl e, fs) \<Rightarrow> failed ([ReadCsv, Normalize, Split, LoadModel] @ tr) [] e fs
      | (tr, Inr m, fs) \<Rightarrow>
          report_and_save L fs ([ReadCsv, Normalize, Split, LoadModel] @ tr) m X_test y_test)))))"

text \<open>
  The whole module, lines 2 to 101, in a world and with an installation of the libraries:
  the imports first, then the script with the libraries as they behave in this process.
\<close>

definition run :: "'m installation \<Rightarrow> world \<Rightarrow> outcome" where
  "run P w =
     (let L = P (argv w) (environ w)
      in case import_modules L of
           Some e \<Rightarrow> failed [] [] e (files w)
         | None \<Rightarrow> script L w)"

subsection \<open>Stage order\<close>

definition all_stages :: "stage list" where
  "all_stages = [ReadCsv, Normalize, Split, LoadModel, Search, Fit, Evaluate, Serialize]"

subsection \<open>Mean and variance of a column\<close>

text \<open>
  The mean and the variance of a column of numbers, as real numbers: the notions in which
  the normalised table is judged. The script computes neither on the normalised table.
  The variance is the sample variance, the convention of \<open>ds.std()\<close>.
\<close>

fun numbers :: "column \<Rightarrow> real list option" where
  "numbers [] = Some []"
| "numbers (Num x # cs) = map_option ((#) x) (numbers cs)"
| "numbers (_ # cs) = None"

definition mean :: "real list \<Rightarrow> real" where
  "mean xs = sum_list xs / real (length xs)"

definition variance :: "real list \<Rightarrow> real" where
  "variance xs = sum_list (map (\<lambda>x. (x - mean xs)\<^sup>2) xs) / real (length xs - 1)"




subsection \<open>A small data set, stand-in libraries and worlds\<close>

text \<open>
  Concrete inputs on which the results below are instantiated. The table has three rows.
  Its column \<open>Tenth\<close> holds the double nearest to 0.1 three times; the doubles that
  pandas computes from it are written out: the mean 0.10000000000000002, the deviation
  from it, the standard deviation 1.6996749443881478e-17 and the quotient
  -0.8164965809277261.
\<close>

definition tenth :: real where
  "tenth = 3602879701896397 / 36028797018963968"

definition tenth_mean :: real where
  "tenth_mean = 7205759403792795 / 72057594037927936"

definition tenth_dev :: real where
  "tenth_dev = - 1 / 72057594037927936"

definition tenth_std :: real where
  "tenth_std = 2757880273211543 / 162259276829213363391578010288128"

definition tenth_z :: real where
  "tenth_z = - 7354347395230783 / 9007199254740992"

definition example_ds :: dataframe where
  "example_ds =
     [(''Entropy'', [Num 1, Num 2, Num 3]),
      (''Const'', [Num 5, Num 5, Num 5]),
      (''Tenth'', [Num tenth, Num tenth, Num tenth]),
      (''Class'', [Num 0, Num 1, Num 1]),
      (''Length'', [Num 4, Num 8, Num 6]),
      (''TFIDF_H'', [Num 0, Num 1, Num 0]),
      (''TFIDF_S'', [Num 1, Num 0, Num 0]),
      (''TFIDF_J'', [Num 0, Num 0, Num 1]),
      (''Z_Length'', [Num (- 1), Num 1, Num 0])]"

definition example_normalized :: dataframe where
  "example_normalized =
     [(''Entropy'', [Num (- 1), Num 0, Num 1]),
      (''Const'', [NaN, NaN, NaN]),
      (''Tenth'', [Num tenth_z, Num tenth_z, Num tenth_z]),
      (''Class'', [Num 0, Num 1, Num 1]),
      (''Length'', [Num 4, Num 8, Num 6]),
      (''TFIDF_H'', [Num 0, Num 1, Num 0]),
      (''TFIDF_S'', [Num 1, Num 0, Num 0]),
      (''TFIDF_J'', [Num 0, Num 0, Num 1]),
      (''Z_Length'', [Num (- 1), Num 1, Num 0])]"

text \<open>
  Stand-ins for the arithmetic of pandas: reductions over the numbers of a column, and
  cell-wise difference and quotient; exact, except on the column \<open>Tenth\<close>, where they
  return the doubles above.
\<close>

fun cell_number :: "cell \<Rightarrow> real option" where
  "cell_number (Num x) = Some x"
| "cell_number _ = None"

definition toy_mean :: "column \<Rightarrow> cell" where
  "toy_mean col =
     (if col = [Num tenth, Num tenth, Num tenth] then Num tenth_mean
      else (let xs = List.map_filter cell_number col
            in if xs = [] then NaN else Num (mean xs)))"

definition toy_std :: "column \<Rightarrow> cell" where
  "toy_std col =
     (if col = [Num tenth, Num tenth, Num tenth] then Num tenth_std
      else (let xs = List.map_filter cell_number col
            in if length xs < 2 then NaN else Num (sqrt (variance xs))))"

fun toy_sub :: "cell \<Rightarrow> cell \<Rightarrow> cell" where
  "toy_sub (Num a) (Num b) = Num (a - b)"
| "toy_sub _ _ = NaN"

fun toy_div :: "cell \<Rightarrow> cell \<Rightarrow> cell" where
  "toy_div (Num a) (Num b) =
     (if a = tenth_dev \<and> b = tenth_std then Num tenth_z
      else if b \<noteq> 0 then Num (a / b)
      else if a = 0 then NaN else if 0 < a then PosInf else NegInf)"
| "toy_div _ _ = NaN"

definition series_at :: "series \<Rightarrow> string \<Rightarrow> cell" where
  "series_at sr c = (case map_of sr c of Some v \<Rightarrow> v | None \<Rightarrow> NaN)"

definition has_text :: "dataframe \<Rightarrow> bool" where
  "has_text ds = (\<exists>col \<in> snd ` set ds. \<exists>v \<in> set col. case v of Str t \<Rightarrow> True | _ \<Rightarrow> False)"

definition toy_libs :: "unit libs" where
  "toy_libs =
     \<lparr>import_modules = None,
      parse_csv = (\<lambda>b. if b = ''csv'' then Inr example_ds
                        else if b = ''short'' then Inr [(''Class'', [Num 0, Num 1])]
                        else if b = ''text'' then Inr [(''Url'', [Str ''a.b'', Str ''c.d''])]
                        else Inl (OtherError ''ParserError'')),
      df_mean = (\<lambda>ds. if has_text ds then Inl (OtherError ''TypeError'')
                        else Inr (map (\<lambda>(c, col). (c, toy_mean col)) ds)),
      df_sub = (\<lambda>ds sr. Inr (map (\<lambda>(c, col). (c, map (\<lambda>v. toy_sub v (series_at sr c)) col)) ds)),
      df_std = (\<lambda>ds. if has_text ds then Inl (OtherError ''TypeError'')
                       else Inr (map (\<lambda>(c, col). (c, toy_std col)) ds)),
      df_div = (\<lambda>ds sr. Inr (map (\<lambda>(c, col). (c, map (\<lambda>v. toy_div v (series_at sr c)) col)) ds)),
      train_test_split = (\<lambda>X y ts sd.
        Inr (map (\<lambda>(c, col). (c, take 2 col)) X, map (\<lambda>(c, col). (c, drop 2 col)) X,
             take 2 y, drop 2 y)),
      pickle_loads = (\<lambda>b. if b = ''RF'' then Inr (RandomForestClassifier ())
                           else if b = ''dict'' then Inr (OtherObject ''dict'')
                           else if b = ''ghost'' then Inl FileNotFoundError
                           else Inl (OtherError ''UnpicklingError'')),
      pickle_dump = (\<lambda>m. (''RF'', None)),
      tuner_search = (\<lambda>t fs X y.
        (Inr \<lparr>n_estimators = 101, criterion = ''gini'', max_depth = 5,
              min_samples_split = 2, max_features = ''log2'',
              max_leaf_nodes = 12, max_samples = 1 / 2\<rparr>,
         fs(''model/random_forest/oracle.json'' \<mapsto> RegularFile ''{}''))),
      rf_fit = (\<lambda>p X y. Inr ()),
      rf_predict = (\<lambda>m X. Inr [Num 1]),
      print_metrics = (\<lambda>y_true y_pred. ([''F2-Score: 1.0''], None)),
      pr_display = (\<lambda>m X y. None)\<rparr>"

text \<open>An installation whose import fails under \<open>MPLBACKEND=bogus\<close>, as matplotlib's does.\<close>

definition toy_install :: "unit installation" where
  "toy_install a env =
     (if env ''MPLBACKEND'' = Some ''bogus''
      then toy_libs\<lparr>import_modules := Some (OtherError ''ValueError'')\<rparr>
      else toy_libs)"

definition fresh_world :: world where
  "fresh_world =
     \<lparr>argv = [''train.py''], environ = Map.empty,
      files = [csv_path \<mapsto> RegularFile ''csv'']\<rparr>"

definition cached_world :: world where
  "cached_world =
     \<lparr>argv = [''train.py''], environ = Map.empty,
      files = [csv_path \<mapsto> RegularFile ''csv'', filename \<mapsto> RegularFile ''RF'']\<rparr>"

definition stale_world :: world where
  "stale_world =
     \<lparr>argv = [''train.py''], environ = Map.empty,
      files = [csv_path \<mapsto> RegularFile ''csv'', filename \<mapsto> RegularFile ''dict'']\<rparr>"

definition ghost_world :: world where
  "ghost_world =
     \<lparr>argv = [''train.py''], environ = Map.empty,
      files = [csv_path \<mapsto> RegularFile ''csv'', filename \<mapsto> RegularFile ''ghost'']\<rparr>"

definition flagged_world :: world where
  "flagged_world =
     \<lparr>argv = [''train.py'', ''--seed'', ''7''], environ = [''MODEL_PATH'' \<mapsto> ''other.sav''],
      files = [csv_path \<mapsto> RegularFile ''csv'']\<rparr>"

definition bogus_world :: world where
  "bogus_world =
     \<lparr>argv = [''train.py''], environ = [''MPLBACKEND'' \<mapsto> ''bogus''],
      files = [csv_path \<mapsto> RegularFile ''csv'']\<rparr>"

text \<open>Worlds and libraries in which one step fails.\<close>

definition empty_world :: world where
  "empty_world = \<lparr>argv = [''train.py''], environ = Map.empty, files = Map.empty\<rparr>"

definition malformed_world :: world where
  "malformed_world =
     \<lparr>argv = [''train.py''], environ = Map.empty,
      files = [csv_path \<mapsto> RegularFile ''garbage'']\<rparr>"

definition short_world :: world where
  "short_world =
     \<lparr>argv = [''train.py''], environ = Map.empty,
      files = [csv_path \<mapsto> RegularFile ''short'']\<rparr>"

definition text_world :: world where
  "text_world =
     \<lparr>argv = [''train.py''], environ = Map.empty,
      files = [csv_path \<mapsto> RegularFile ''text'']\<rparr>"

definition junk_world :: world where
  "junk_world =
     \<lparr>argv = [''train.py''], environ = Map.empty,
      files = [csv_path \<mapsto> RegularFile ''csv'', filename \<mapsto> RegularFile ''junk'']\<rparr>"

definition dir_world :: world where
  "dir_world =
     \<lparr>argv = [''train.py''], environ = Map.empty,
      files = [csv_path \<mapsto> RegularFile ''csv'', filename \<mapsto> Directory]\<rparr>"

definition failing_libs :: "stage \<Rightarrow> unit libs" where
  "failing_libs s =
     (case s of
        Split \<Rightarrow> toy_libs\<lparr>train_test_split := (\<lambda>X y ts sd. Inl (OtherError ''ValueError''))\<rparr>
      | Search \<Rightarrow> toy_libs\<lparr>tuner_search := (\<lambda>t fs X y. (Inl (OtherError ''RuntimeError''), fs))\<rparr>
      | Fit \<Rightarrow> toy_libs\<lparr>rf_fit := (\<lambda>p X y. Inl (OtherError ''InvalidParameterError''))\<rparr>
      | Evaluate \<Rightarrow> toy_libs\<lparr>rf_predict := (\<lambda>m X. Inl (OtherError ''NotFittedError''))\<rparr>
      | Serialize \<Rightarrow> toy_libs\<lparr>pickle_dump := (\<lambda>m. (''RF'', Some (OtherError ''PicklingError'')))\<rparr>
      | _ \<Rightarrow> toy_libs)"

section \<open>Normalisation\<close>

subsection \<open>Column lookup after the assignments\<close>

lemma restore_cols_map_of:
  "restore_cols ds cs nds0 = Inr nds \<Longrightarrow>
   map_of nds c = (if c \<in> set cs then map_of ds c else map_of nds0 c)"
proof (induction cs arbitrary: nds0)
  case Nil
  then show ?case by simp
next
  case (Cons c' cs)
  then show ?case
    by (auto simp: get_col_def set_col_def update_conv' split: option.splits sum.splits if_splits)
qed

lemma restore_cols_present:
  "restore_cols ds cs nds0 = Inr nds \<Longrightarrow> c \<in> set cs \<Longrightarrow> map_of ds c \<noteq> None"
  by (induction cs arbitrary: nds0) (auto simp: get_col_def split: option.splits sum.splits)

lemma restore_cols_error:
  "restore_cols ds cs nds0 = Inl e \<Longrightarrow> \<exists>c \<in> set cs. e = KeyError c \<and> map_of ds c = None"
  by (induction cs arbitrary: nds0) (auto simp: get_col_def split: option.splits sum.splits)

lemma restore_cols_missing:
  "c \<in> set cs \<Longrightarrow> map_of ds c = None \<Longrightarrow> \<exists>e. restore_cols ds cs nds0 = Inl e"
  using restore_cols_present [of ds cs nds0 _ c] by (cases "restore_cols ds cs nds0") auto

lemma normalize_Inr:
  "normalize L ds = Inr nds \<longleftrightarrow>
   (\<exists>z. zscore_frame L ds = Inr z \<and> restore_cols ds raw_columns z = Inr nds)"
  by (auto simp: normalize_def split: sum.splits)

lemma normalize_missing_column:
  assumes "zscore_frame L ds = Inr z" and "c \<in> set raw_columns" and "map_of ds c = None"
  shows "\<exists>c' \<in> set raw_columns. normalize L ds = Inl (KeyError c') \<and> map_of ds c' = None"
proof -
  from restore_cols_missing [OF assms(2,3)] obtain e
    where e: "restore_cols ds raw_columns z = Inl e" by blast
  with restore_cols_error [OF e] assms(1) show ?thesis
    by (auto simp: normalize_def)
qed

subsection \<open>Mean and variance of exact z-scores\<close>

lemma numbers_map_Num [simp]: "numbers (map Num xs) = Some xs"
  by (induction xs) simp_all





subsection \<open>The example table\<close>

lemma example_has_no_text: "\<not> has_text example_ds"
  by (simp add: has_text_def example_ds_def)

lemma tenth_facts:
  "tenth - tenth_mean = tenth_dev" "tenth \<noteq> 5" "tenth \<noteq> 1" "tenth \<noteq> 0" "tenth \<noteq> 4" "tenth \<noteq> - 1"
  "tenth_dev \<noteq> 0" "tenth_std \<noteq> 0" "tenth_z \<noteq> 0"
  by (simp_all add: tenth_def tenth_mean_def tenth_dev_def tenth_std_def tenth_z_def)

lemma toy_moments:
  "toy_mean [Num 1, Num 2, Num 3] = Num 2"
  "toy_std [Num 1, Num 2, Num 3] = Num 1"
  "toy_mean [Num 5, Num 5, Num 5] = Num 5"
  "toy_std [Num 5, Num 5, Num 5] = Num 0"
  "toy_mean [Num tenth, Num tenth, Num tenth] = Num tenth_mean"
  "toy_std [Num tenth, Num tenth, Num tenth] = Num tenth_std"
  by (simp_all add: toy_mean_def toy_std_def mean_def variance_def List.map_filter_simps Let_def
      tenth_facts)


lemma normalize_example_ds: "normalize toy_libs example_ds = Inr example_normalized"
  apply (simp add: normalize_def zscore_frame_def toy_libs_def example_has_no_text)
  apply (simp add: example_ds_def example_normalized_def raw_columns_def get_col_def set_col_def
      series_at_def toy_moments)
  apply (simp add: tenth_def tenth_mean_def tenth_dev_def tenth_std_def tenth_z_def)
  done



subsection \<open>Claims about the normalised table\<close>




text \<open>
  C9: after the normalisation step the columns \<open>Class\<close>, \<open>Length\<close>, \<open>TFIDF_H\<close>,
  \<open>TFIDF_S\<close>, \<open>TFIDF_J\<close> and \<open>Z_Length\<close> of the normalised table are the columns of the
  input table, unchanged; and the label column handed to the split (from which the
  training and evaluation labels come) is the raw column \<open>Class\<close>.
\<close>

theorem raw_columns_preserved:
  assumes "normalize L ds = Inr nds"
  shows "(\<forall>c \<in> set raw_columns. \<exists>col. get_col ds c = Inr col \<and> get_col nds c = Inr col)
         \<and> (\<exists>y X. get_col ds ''Class'' = Inr y \<and> drop_col nds ''Class'' = Inr X
                \<and> split_dataset L nds = train_test_split L X y (2 / 10) seed)"
proof -
  from assms obtain z where z: "restore_cols ds raw_columns z = Inr nds"
    by (auto simp: normalize_Inr)
  have raw: "\<exists>col. get_col ds c = Inr col \<and> get_col nds c = Inr col"
    if "c \<in> set raw_columns" for c
  proof -
    from z that have "map_of nds c = map_of ds c" and "map_of ds c \<noteq> None"
      by (simp_all add: restore_cols_map_of restore_cols_present)
    then show ?thesis by (auto simp: get_col_def)
  qed
  have "''Class'' \<in> set raw_columns" by (simp add: raw_columns_def)
  from raw [OF this] obtain y
    where y: "get_col ds ''Class'' = Inr y" "get_col nds ''Class'' = Inr y" by blast
  then have "map_of nds ''Class'' \<noteq> None"
    by (auto simp: get_col_def split: option.splits)
  then have "''Class'' \<in> fst ` set nds"
    by (simp add: map_of_eq_None_iff)
  then have "drop_col nds ''Class'' = Inr (AList.delete ''Class'' nds)"
    by (simp add: drop_col_def)
  with y have "get_col ds ''Class'' = Inr y \<and> drop_col nds ''Class'' = Inr (AList.delete ''Class'' nds)
      \<and> split_dataset L nds = train_test_split L (AList.delete ''Class'' nds) y (2 / 10) seed"
    by (simp add: split_dataset_def)
  with raw show ?thesis by blast
qed

theorem raw_columns_preserved_witness:
  "normalize toy_libs example_ds = Inr example_normalized
   \<and> get_col example_normalized ''Class'' = get_col example_ds ''Class''
   \<and> get_col example_normalized ''Z_Length'' = get_col example_ds ''Z_Length''"
proof -
  have h: "normalize toy_libs example_ds = Inr example_normalized"
    by (rule normalize_example_ds)
  have "''Class'' \<in> set raw_columns" "''Z_Length'' \<in> set raw_columns"
    by (simp_all add: raw_columns_def)
  with raw_columns_preserved [OF h] h show ?thesis by fastforce
qed

section \<open>The run as a whole\<close>

subsection \<open>Paths and the tuner's directory\<close>

lemma paths_distinct: "csv_path \<noteq> filename" "filename \<noteq> csv_path"
  by (simp_all add: csv_path_def filename_def)

lemma tuner_dir: "norm_path (directory tuner) = ''model''"
  by (simp add: norm_path_def tuner_def)

lemma not_under_tuner_dir:
  "\<not> under (norm_path (directory tuner)) filename"
  "\<not> under (norm_path (directory tuner)) csv_path"
  by (simp_all add: tuner_dir under_def filename_def csv_path_def)

lemma tuner_writes_outside:
  "\<not> under (norm_path (directory tuner)) p \<Longrightarrow> tuner_writes fs fs1 p = fs p"
  by (simp add: tuner_writes_def)

lemma tuner_writes_filename [simp]:
  "tuner_writes fs fs1 filename = fs filename"
  "isfile (tuner_writes fs fs1) filename = isfile fs filename"
  by (simp_all add: tuner_writes_outside not_under_tuner_dir isfile_def)

lemma failed_sel [simp]:
  "trace (failed tr out e fs) = tr" "stdout (failed tr out e fs) = out"
  "raised (failed tr out e fs) = Some e" "files_out (failed tr out e fs) = fs"
  by (simp_all add: failed_def)

subsection \<open>Case analysis of a run\<close>

lemma script_cases [consumes 0, case_names read_fail normalize_fail split_fail load_fail model_fail model_ready]:
  obtains
    e where "read_features L w = Inl e" "script L w = failed [ReadCsv] [] e (files w)"
  | ds e where "read_features L w = Inr ds" "normalize L ds = Inl e"
      "script L w = failed [ReadCsv, Normalize] [] e (files w)"
  | ds nds e where "read_features L w = Inr ds" "normalize L ds = Inr nds"
      "split_dataset L nds = Inl e"
      "script L w = failed [ReadCsv, Normalize, Split] [] e (files w)"
  | ds nds X_train X_test y_train y_test e where "read_features L w = Inr ds"
      "normalize L ds = Inr nds" "split_dataset L nds = Inr (X_train, X_test, y_train, y_test)"
      "load_model L w = Inl e"
      "script L w = failed [ReadCsv, Normalize, Split, LoadModel] [] e (files w)"
  | ds nds X_train X_test y_train y_test obj tr e fs where "read_features L w = Inr ds"
      "normalize L ds = Inr nds" "split_dataset L nds = Inr (X_train, X_test, y_train, y_test)"
      "load_model L w = Inr obj" "choose_model L obj (files w) X_train y_train = (tr, Inl e, fs)"
      "script L w = failed ([ReadCsv, Normalize, Split, LoadModel] @ tr) [] e fs"
  | ds nds X_train X_test y_train y_test obj tr m fs where "read_features L w = Inr ds"
      "normalize L ds = Inr nds" "split_dataset L nds = Inr (X_train, X_test, y_train, y_test)"
      "load_model L w = Inr obj" "choose_model L obj (files w) X_train y_train = (tr, Inr m, fs)"
      "script L w =
         report_and_save L fs ([ReadCsv, Normalize, Split, LoadModel] @ tr) m X_test y_test"
proof (cases "read_features L w")
  case (Inl e)
  then show ?thesis using that(1) by (simp add: script_def)
next
  case ds: (Inr ds)
  show ?thesis
  proof (cases "normalize L ds")
    case (Inl e)
    then show ?thesis using ds that(2) by (simp add: script_def)
  next
    case nds: (Inr nds)
    show ?thesis
    proof (cases "split_dataset L nds")
      case (Inl e)
      then show ?thesis using ds nds that(3) by (simp add: script_def)
    next
      case (Inr parts)
      then obtain X_train X_test y_train y_test
        where parts: "split_dataset L nds = Inr (X_train, X_test, y_train, y_test)"
        by (cases parts) auto
      show ?thesis
      proof (cases "load_model L w")
        case (Inl e)
        then show ?thesis using ds nds parts that(4) by (simp add: script_def)
      next
        case obj: (Inr obj)
        obtain tr r fs where cm: "choose_model L obj (files w) X_train y_train = (tr, r, fs)"
          by (cases "choose_model L obj (files w) X_train y_train") auto
        show ?thesis
        proof (cases r)
          case (Inl e)
          then show ?thesis using ds nds parts obj cm that(5) by (simp add: script_def)
        next
          case (Inr m)
          then show ?thesis using ds nds parts obj cm that(6) by (simp add: script_def)
        qed
      qed
    qed
  qed
qed

lemma search_and_fit_shape:
  assumes "search_and_fit L fs X y = (tr, r, fs')"
  shows "(\<exists>e fs1. tuner_search L tuner fs X y = (Inl e, fs1) \<and> tr = [Search] \<and> r = Inl e
            \<and> fs' = tuner_writes fs fs1)
         \<or> (\<exists>h fs1. tuner_search L tuner fs X y = (Inr h, fs1) \<and> tr = [Search, Fit]
            \<and> r = rf_fit L (build_model h) X y \<and> fs' = tuner_writes fs fs1)"
  using assms
  by (auto simp: search_and_fit_def tuner_def split: sum.splits prod.splits)

lemma choose_model_search:
  "\<forall>m. obj \<noteq> RandomForestClassifier m \<Longrightarrow>
   choose_model L obj fs X y = search_and_fit L fs X y"
  by (cases obj) (simp_all add: choose_model_def)

lemma choose_model_shape:
  assumes "choose_model L obj fs X y = (tr, r, fs')"
  shows "((\<exists>m. obj = RandomForestClassifier m \<and> r = Inr m) \<and> tr = [] \<and> fs' = fs)
         \<or> ((\<forall>m. obj \<noteq> RandomForestClassifier m)
             \<and> ((tr = [Search] \<and> (\<exists>e. r = Inl e)) \<or> tr = [Search, Fit])
             \<and> (\<exists>fs1. fs' = tuner_writes fs fs1))"
proof (cases "\<exists>m. obj = RandomForestClassifier m")
  case True
  with assms show ?thesis by (auto simp: choose_model_def)
next
  case False
  then have "\<forall>m. obj \<noteq> RandomForestClassifier m" by simp
  with assms search_and_fit_shape [of L fs X y tr r fs'] show ?thesis
    by (auto simp: choose_model_search)
qed

lemma choose_model_keeps_model_file:
  assumes "choose_model L obj fs X y = (tr, r, fs')"
  shows "fs' filename = fs filename" "isfile fs' filename = isfile fs filename"
    "\<not> under (norm_path (directory tuner)) p \<Longrightarrow> fs' p = fs p"
  using choose_model_shape [OF assms] by (auto simp: tuner_writes_outside)

lemma save_model_present:
  "isfile fs filename \<Longrightarrow> save_model L fs m = ([], None, fs)"
  by (simp add: save_model_def)

lemma save_model_absent:
  "\<not> isfile fs filename \<Longrightarrow> \<exists>r fs'. save_model L fs m = ([Serialize], r, fs')"
  by (auto simp: save_model_def split: option.splits node.splits prod.splits)

lemma save_model_other_paths:
  "save_model L fs m = (tr, r, fs') \<Longrightarrow> p \<noteq> filename \<Longrightarrow> fs' p = fs p"
  by (auto simp: save_model_def split: if_splits option.splits node.splits prod.splits)

lemma report_and_save_shape:
  "(trace (report_and_save L fs tr m X y) = tr @ [Evaluate]
      \<and> files_out (report_and_save L fs tr m X y) = fs
      \<and> (raised (report_and_save L fs tr m X y) = None \<longrightarrow> isfile fs filename))
   \<or> (trace (report_and_save L fs tr m X y) = tr @ [Evaluate, Serialize]
      \<and> \<not> isfile fs filename)"
proof (cases "isfile fs filename")
  case True
  then show ?thesis
    by (auto simp: report_and_save_def failed_def save_model_present Let_def
        split: prod.splits option.splits)
next
  case False
  from save_model_absent [OF this, of L m] obtain r fs'
    where "save_model L fs m = ([Serialize], r, fs')" by blast
  then show ?thesis using False
    by (auto simp: report_and_save_def failed_def Let_def split: prod.splits option.splits)
qed

lemma report_and_save_other_paths:
  "p \<noteq> filename \<Longrightarrow> files_out (report_and_save L fs tr m X y) p = fs p"
proof -
  assume p: "p \<noteq> filename"
  obtain tr' r fs' where s: "save_model L fs m = (tr', r, fs')"
    by (cases "save_model L fs m") auto
  from save_model_other_paths [OF s p] s show ?thesis
    by (auto simp: report_and_save_def failed_def Let_def split: prod.splits option.splits)
qed

lemma script_trace_forms:
  "trace (script L w) \<in>
     {[ReadCsv], [ReadCsv, Normalize], [ReadCsv, Normalize, Split],
      [ReadCsv, Normalize, Split, LoadModel],
      [ReadCsv, Normalize, Split, LoadModel, Search],
      [ReadCsv, Normalize, Split, LoadModel, Search, Fit],
      [ReadCsv, Normalize, Split, LoadModel, Evaluate],
      [ReadCsv, Normalize, Split, LoadModel, Search, Fit, Evaluate],
      [ReadCsv, Normalize, Split, LoadModel, Evaluate, Serialize],
      [ReadCsv, Normalize, Split, LoadModel, Search, Fit, Evaluate, Serialize]}"
proof (cases rule: script_cases [of L w])
  case (model_fail ds nds X_train X_test y_train y_test obj tr e fs)
  with choose_model_shape [OF model_fail(5)] show ?thesis by auto
next
  case (model_ready ds nds X_train X_test y_train y_test obj tr m fs)
  from choose_model_shape [OF model_ready(5)] have "tr = [] \<or> tr = [Search, Fit]" by auto
  with model_ready(6)
    report_and_save_shape [of L fs "[ReadCsv, Normalize, Split, LoadModel] @ tr" m X_test y_test]
  show ?thesis by auto
qed simp_all

lemma all_stages_subseq:
  "tr \<in>
     {[ReadCsv], [ReadCsv, Normalize], [ReadCsv, Normalize, Split],
      [ReadCsv, Normalize, Split, LoadModel],
      [ReadCsv, Normalize, Split, LoadModel, Search],
      [ReadCsv, Normalize, Split, LoadModel, Search, Fit],
      [ReadCsv, Normalize, Split, LoadModel, Evaluate],
      [ReadCsv, Normalize, Split, LoadModel, Search, Fit, Evaluate],
      [ReadCsv, Normalize, Split, LoadModel, Evaluate, Serialize],
      [ReadCsv, Normalize, Split, LoadModel, Search, Fit, Evaluate, Serialize]}
   \<Longrightarrow> subseq tr all_stages \<and> distinct tr"
  by (elim insertE emptyE; simp add: all_stages_def)

lemma script_model_file:
  "isfile (files w) filename \<Longrightarrow>
   files_out (script L w) filename = files w filename \<and> Serialize \<notin> set (trace (script L w))"
proof (cases rule: script_cases [of L w])
  case (model_fail ds nds X_train X_test y_train y_test obj tr e fs)
  with choose_model_shape [OF model_fail(5)] show ?thesis by auto
next
  case (model_ready ds nds X_train X_test y_train y_test obj tr m fs)
  assume present: "isfile (files w) filename"
  from choose_model_shape [OF model_ready(5)] have tr: "tr = [] \<or> tr = [Search, Fit]" by auto
  from choose_model_keeps_model_file [OF model_ready(5)] present
  have "isfile fs filename" "fs filename = files w filename" by simp_all
  with model_ready(6) tr
    report_and_save_shape [of L fs "[ReadCsv, Normalize, Split, LoadModel] @ tr" m X_test y_test]
  show ?thesis by auto
qed simp_all

lemma script_other_paths:
  assumes "\<not> under (norm_path (directory tuner)) p" and "p \<noteq> filename"
  shows "files_out (script L w) p = files w p"
proof (cases rule: script_cases [of L w])
  case (model_fail ds nds X_train X_test y_train y_test obj tr e fs)
  with choose_model_keeps_model_file(3) [OF model_fail(5) assms(1)] show ?thesis by simp
next
  case (model_ready ds nds X_train X_test y_train y_test obj tr m fs)
  with choose_model_keeps_model_file(3) [OF model_ready(5) assms(1)]
  show ?thesis by (simp add: report_and_save_other_paths [OF assms(2)])
qed simp_all

subsection \<open>Loading, and what a run depends on\<close>

lemma load_model_forest:
  "load_model L w = Inr (RandomForestClassifier m) \<longleftrightarrow>
   (\<exists>b. files w filename = Some (RegularFile b) \<and> pickle_loads L b = Inr (RandomForestClassifier m))"
  by (auto simp: load_model_def open_rb_def split: option.splits node.splits sum.splits exn.splits)

lemma load_model_missing: "files w filename = None \<Longrightarrow> load_model L w = Inr PyNone"
  by (simp add: load_model_def open_rb_def)

lemma load_model_loaded:
  "files w filename = Some (RegularFile b) \<Longrightarrow> pickle_loads L b = Inr obj \<Longrightarrow>
   load_model L w = Inr obj"
  by (simp add: load_model_def open_rb_def)

lemma load_model_caught:
  "open_rb (files w) filename = Inl FileNotFoundError \<Longrightarrow> load_model L w = Inr PyNone"
  "open_rb (files w) filename = Inr b \<Longrightarrow> pickle_loads L b = Inl FileNotFoundError
     \<Longrightarrow> load_model L w = Inr PyNone"
  by (simp_all add: load_model_def)

lemma load_model_not_caught: "load_model L w = Inl e \<Longrightarrow> e \<noteq> FileNotFoundError"
  by (auto simp: load_model_def split: sum.splits exn.splits)

lemma load_model_propagates:
  "open_rb (files w) filename = Inl e \<Longrightarrow> e \<noteq> FileNotFoundError \<Longrightarrow> load_model L w = Inl e"
  "open_rb (files w) filename = Inr b \<Longrightarrow> pickle_loads L b = Inl e \<Longrightarrow> e \<noteq> FileNotFoundError
     \<Longrightarrow> load_model L w = Inl e"
  by (cases e; simp add: load_model_def)+

lemma read_features_cases:
  "files w csv_path = None \<Longrightarrow> read_features L w = Inl FileNotFoundError"
  "files w csv_path = Some (RegularFile b) \<Longrightarrow> read_features L w = parse_csv L b"
  by (simp_all add: read_features_def open_rb_def)

lemma script_files_only:
  assumes "files w1 = files w2"
  shows "script L w1 = script L w2"
proof -
  have a: "read_features L w1 = read_features L w2"
    by (simp add: read_features_def assms)
  have b: "load_model L w1 = load_model L w2"
    by (simp add: load_model_def assms)
  show ?thesis
    unfolding script_def a b assms ..
qed

subsection \<open>The example runs\<close>

lemma toy_front:
  "read_features toy_libs fresh_world = Inr example_ds"
  "read_features toy_libs cached_world = Inr example_ds"
  "read_features toy_libs stale_world = Inr example_ds"
  "read_features toy_libs ghost_world = Inr example_ds"
  by (simp_all add: read_features_def open_rb_def toy_libs_def fresh_world_def cached_world_def
      stale_world_def ghost_world_def paths_distinct)

lemma toy_split:
  "split_dataset toy_libs example_normalized =
     Inr (map (\<lambda>(c, col). (c, take 2 col)) (AList.delete ''Class'' example_normalized),
          map (\<lambda>(c, col). (c, drop 2 col)) (AList.delete ''Class'' example_normalized),
          [Num 0, Num 1], [Num 1])"
  by (simp add: split_dataset_def get_col_def drop_col_def toy_libs_def example_normalized_def)

lemma toy_load:
  "load_model toy_libs fresh_world = Inr PyNone"
  "load_model toy_libs cached_world = Inr (RandomForestClassifier ())"
  "load_model toy_libs stale_world = Inr (OtherObject ''dict'')"
  "load_model toy_libs ghost_world = Inr PyNone"
  by (simp_all add: load_model_def open_rb_def toy_libs_def fresh_world_def cached_world_def
      stale_world_def ghost_world_def paths_distinct)

lemma toy_isfile:
  "\<not> isfile (files fresh_world) filename"
  "isfile (files cached_world) filename"
  "isfile (files stale_world) filename"
  "isfile (files ghost_world) filename"
  by (simp_all add: isfile_def fresh_world_def cached_world_def stale_world_def ghost_world_def
      paths_distinct)

lemma toy_search:
  "tuner_search toy_libs tuner fs X y =
     (Inr \<lparr>n_estimators = 101, criterion = ''gini'', max_depth = 5,
           min_samples_split = 2, max_features = ''log2'',
           max_leaf_nodes = 12, max_samples = 1 / 2\<rparr>,
      fs(''model/random_forest/oracle.json'' \<mapsto> RegularFile ''{}''))"
  "rf_fit toy_libs p X y = Inr ()"
  "rf_predict toy_libs m X = Inr [Num 1]"
  "print_metrics toy_libs y_true y_pred = ([''F2-Score: 1.0''], None)"
  "pickle_dump toy_libs m = (''RF'', None)"
  by (simp_all add: toy_libs_def)

lemma toy_choose:
  "choose_model toy_libs PyNone fs X y =
     ([Search, Fit], Inr (),
      tuner_writes fs (fs(''model/random_forest/oracle.json'' \<mapsto> RegularFile ''{}'')))"
  "choose_model toy_libs (RandomForestClassifier ()) fs X y = ([], Inr (), fs)"
  "choose_model toy_libs (OtherObject ''dict'') fs X y =
     ([Search, Fit], Inr (),
      tuner_writes fs (fs(''model/random_forest/oracle.json'' \<mapsto> RegularFile ''{}'')))"
  by (simp_all add: choose_model_def search_and_fit_def toy_search)

lemma toy_evaluate:
  "evaluate_model toy_libs X y m X' y' False = ([''F2-Score: 1.0''], None)"
  by (simp add: evaluate_model_def toy_search)

lemma toy_report_present:
  "isfile fs filename \<Longrightarrow>
   report_and_save toy_libs fs tr m X y =
     \<lparr>trace = tr @ [Evaluate], stdout = [''Performance on test set 12:'', ''F2-Score: 1.0''],
      raised = None, files_out = fs\<rparr>"
  by (simp add: report_and_save_def toy_evaluate save_model_present)

lemma toy_report_absent:
  "fs filename = None \<Longrightarrow>
   report_and_save toy_libs fs tr m X y =
     \<lparr>trace = tr @ [Evaluate, Serialize],
      stdout = [''Performance on test set 12:'', ''F2-Score: 1.0''],
      raised = None, files_out = fs(filename \<mapsto> RegularFile ''RF'')\<rparr>"
  by (simp add: report_and_save_def toy_evaluate save_model_def isfile_def toy_search)

lemma fresh_no_model: "files fresh_world filename = None"
  by (simp add: fresh_world_def paths_distinct)

lemma script_fresh:
  "trace (script toy_libs fresh_world) =
     [ReadCsv, Normalize, Split, LoadModel, Search, Fit, Evaluate, Serialize]"
  "stdout (script toy_libs fresh_world) = [''Performance on test set 12:'', ''F2-Score: 1.0'']"
  "raised (script toy_libs fresh_world) = None"
  "files_out (script toy_libs fresh_world) filename = Some (RegularFile ''RF'')"
  by (simp_all add: script_def toy_front normalize_example_ds toy_split toy_load toy_choose
      toy_report_absent fresh_no_model)

lemma script_cached:
  "trace (script toy_libs cached_world) = [ReadCsv, Normalize, Split, LoadModel, Evaluate]"
  "stdout (script toy_libs cached_world) = [''Performance on test set 12:'', ''F2-Score: 1.0'']"
  "raised (script toy_libs cached_world) = None"
  "files_out (script toy_libs cached_world) = files cached_world"
  by (simp_all add: script_def toy_front normalize_example_ds toy_split toy_load toy_choose
      toy_report_present toy_isfile)

lemma script_stale:
  "trace (script toy_libs stale_world) =
     [ReadCsv, Normalize, Split, LoadModel, Search, Fit, Evaluate]"
  "stdout (script toy_libs stale_world) = [''Performance on test set 12:'', ''F2-Score: 1.0'']"
  "raised (script toy_libs stale_world) = None"
  "files_out (script toy_libs stale_world) filename = files stale_world filename"
  "files_out (script toy_libs stale_world) ''model/random_forest/oracle.json''
     = Some (RegularFile ''{}'')"
  by (simp_all add: script_def toy_front normalize_example_ds toy_split toy_load toy_choose
      toy_report_present toy_isfile)
     (simp add: tuner_writes_def tuner_dir under_def)

lemma script_ghost:
  "trace (script toy_libs ghost_world) =
     [ReadCsv, Normalize, Split, LoadModel, Search, Fit, Evaluate]"
  "raised (script toy_libs ghost_world) = None"
  by (simp_all add: script_def toy_front normalize_example_ds toy_split toy_load toy_choose
      toy_report_present toy_isfile)

lemma report_and_save_done:
  assumes "raised (report_and_save L fs tr m X_test y_test) = None" and "isfile fs filename"
  shows "\<exists>y_pred out. rf_predict L m X_test = Inr y_pred
           \<and> print_metrics L y_test y_pred = (out, None)
           \<and> stdout (report_and_save L fs tr m X_test y_test)
               = ''Performance on test set 12:'' # out
           \<and> trace (report_and_save L fs tr m X_test y_test) = tr @ [Evaluate]
           \<and> files_out (report_and_save L fs tr m X_test y_test) = fs"
  using assms
  by (auto simp: report_and_save_def evaluate_model_def failed_def save_model_present Let_def
      split: sum.splits prod.splits option.splits)

lemma evaluate_model_raises:
  "rf_predict L m X_test = Inl e \<Longrightarrow>
     evaluate_model L X_test y_test m X_test y_test False = ([], Some e)"
  "rf_predict L m X_test = Inr y_pred \<Longrightarrow> print_metrics L y_test y_pred = (out, r) \<Longrightarrow>
     evaluate_model L X_test y_test m X_test y_test False = (out, r)"
  by (cases r; simp add: evaluate_model_def)+

lemma report_and_save_raised:
  "evaluate_model L X_test y_test m X_test y_test False = (out, Some e) \<Longrightarrow>
     raised (report_and_save L fs tr m X_test y_test) = Some e"
  "evaluate_model L X_test y_test m X_test y_test False = (out, None) \<Longrightarrow>
   save_model L fs m = (tr', r, fs') \<Longrightarrow>
     raised (report_and_save L fs tr m X_test y_test) = r"
  by (simp_all add: report_and_save_def)

lemma save_model_raises:
  "fs filename = None \<Longrightarrow> pickle_dump L m = (b, r) \<Longrightarrow>
     save_model L fs m = ([Serialize], r, fs(filename \<mapsto> RegularFile b))"
  by (simp add: save_model_def isfile_def)

lemma failing_front:
  "read_features (failing_libs s) fresh_world = Inr example_ds"
  "load_model (failing_libs s) fresh_world = Inr PyNone"
  by (cases s; simp add: failing_libs_def read_features_def load_model_def open_rb_def
      toy_libs_def fresh_world_def paths_distinct)+

lemma failing_arithmetic:
  "df_mean (failing_libs s) = df_mean toy_libs"
  "df_sub (failing_libs s) = df_sub toy_libs"
  "df_std (failing_libs s) = df_std toy_libs"
  "df_div (failing_libs s) = df_div toy_libs"
  by (cases s; simp add: failing_libs_def)+

lemma failing_normalize:
  "normalize (failing_libs s) example_ds = normalize toy_libs example_ds"
  unfolding normalize_def zscore_frame_def failing_arithmetic ..

lemma failing_split:
  "split_dataset (failing_libs Split) example_normalized = Inl (OtherError ''ValueError'')"
  "s \<noteq> Split \<Longrightarrow> split_dataset (failing_libs s) example_normalized =
     Inr (map (\<lambda>(c, col). (c, take 2 col)) (AList.delete ''Class'' example_normalized),
          map (\<lambda>(c, col). (c, drop 2 col)) (AList.delete ''Class'' example_normalized),
          [Num 0, Num 1], [Num 1])"
  by (cases s; simp add: failing_libs_def split_dataset_def get_col_def drop_col_def toy_libs_def
      example_normalized_def)+

lemma failing_calls:
  "tuner_search (failing_libs Search) tuner fs X y = (Inl (OtherError ''RuntimeError''), fs)"
  "tuner_search (failing_libs Fit) tuner fs X y =
     (Inr \<lparr>n_estimators = 101, criterion = ''gini'', max_depth = 5,
           min_samples_split = 2, max_features = ''log2'',
           max_leaf_nodes = 12, max_samples = 1 / 2\<rparr>,
      fs(''model/random_forest/oracle.json'' \<mapsto> RegularFile ''{}''))"
  "rf_fit (failing_libs Fit) p X y = Inl (OtherError ''InvalidParameterError'')"
  "rf_predict (failing_libs Evaluate) m X = Inl (OtherError ''NotFittedError'')"
  "rf_predict (failing_libs Serialize) m X = Inr [Num 1]"
  "print_metrics (failing_libs Serialize) y_true y_pred = ([''F2-Score: 1.0''], None)"
  "pickle_dump (failing_libs Serialize) m = (''RF'', Some (OtherError ''PicklingError''))"
  by (simp_all add: failing_libs_def toy_libs_def)

lemma failing_choose:
  "choose_model (failing_libs Evaluate) PyNone fs X y =
     ([Search, Fit], Inr (),
      tuner_writes fs (fs(''model/random_forest/oracle.json'' \<mapsto> RegularFile ''{}'')))"
  "choose_model (failing_libs Serialize) PyNone fs X y =
     ([Search, Fit], Inr (),
      tuner_writes fs (fs(''model/random_forest/oracle.json'' \<mapsto> RegularFile ''{}'')))"
  by (simp_all add: failing_libs_def choose_model_def search_and_fit_def toy_libs_def)

lemma toy_failures:
  "read_features toy_libs malformed_world = Inl (OtherError ''ParserError'')"
  "read_features toy_libs short_world = Inr [(''Class'', [Num 0, Num 1])]"
  "normalize toy_libs [(''Class'', [Num 0, Num 1])] = Inl (KeyError ''Length'')"
  "read_features toy_libs junk_world = Inr example_ds"
  "load_model toy_libs junk_world = Inl (OtherError ''UnpicklingError'')"
  "read_features toy_libs dir_world = Inr example_ds"
  "read_features toy_libs text_world = Inr [(''Url'', [Str ''a.b'', Str ''c.d''])]"
  "zscore_frame toy_libs [(''Url'', [Str ''a.b'', Str ''c.d''])] = Inl (OtherError ''TypeError'')"
  by (simp_all add: read_features_def load_model_def open_rb_def toy_libs_def malformed_world_def
      short_world_def junk_world_def dir_world_def text_world_def paths_distinct normalize_def
      zscore_frame_def has_text_def raw_columns_def get_col_def set_col_def)

lemma short_zscore:
  "\<exists>z. zscore_frame toy_libs [(''Class'', [Num 0, Num 1])] = Inr z"
  by (simp add: zscore_frame_def toy_libs_def has_text_def)

lemma toy_install_cases:
  "toy_install (argv fresh_world) (environ fresh_world) = toy_libs"
  "toy_install (argv flagged_world) (environ flagged_world) = toy_libs"
  "toy_install (argv bogus_world) (environ bogus_world)
     = toy_libs\<lparr>import_modules := Some (OtherError ''ValueError'')\<rparr>"
  by (simp_all add: toy_install_def fresh_world_def flagged_world_def bogus_world_def)

lemma toy_imports: "import_modules toy_libs = None"
  by (simp add: toy_libs_def)

section \<open>Claims about the run\<close>

subsection \<open>When the search is skipped\<close>

text \<open>
  C2, as stated: the hyperparameter search is skipped if and only if a valid cached model
  file exists, where validity is decided by a check of the model file's existence. This
  fails in the world whose model file holds a pickled dictionary: the file exists, and the
  search runs.
\<close>

theorem search_skipped_by_existence_counterexample:
  "isfile (files stale_world) filename \<and> Search \<in> set (trace (script toy_libs stale_world))"
  by (simp add: toy_isfile script_stale)

text \<open>
  C2, amended: on a run that reaches line 74, the hyperparameter search is skipped if and
  only if the model file exists and unpickles to an object whose type is exactly
  \<open>RandomForestClassifier\<close>; the decision is the type test of line 74 on the loaded
  object, not a test of the file's existence.
\<close>

theorem search_skipped_iff_forest_loaded:
  assumes "read_features L w = Inr ds"
    and "normalize L ds = Inr nds"
    and "split_dataset L nds = Inr parts"
    and "load_model L w = Inr obj"
  shows "Search \<notin> set (trace (script L w)) \<longleftrightarrow>
         (\<exists>b m. files w filename = Some (RegularFile b)
                \<and> pickle_loads L b = Inr (RandomForestClassifier m))"
proof -
  have rhs: "(\<exists>b m. files w filename = Some (RegularFile b)
                \<and> pickle_loads L b = Inr (RandomForestClassifier m))
             \<longleftrightarrow> (\<exists>m. obj = RandomForestClassifier m)"
    using assms(4) load_model_forest [of L w] by auto
  show ?thesis
  proof (cases rule: script_cases [of L w])
    case (model_fail ds' nds' X_train X_test y_train y_test obj' tr e fs)
    with assms have "obj' = obj" by simp
    with choose_model_shape [OF model_fail(5)] model_fail(6) rhs show ?thesis by auto
  next
    case (model_ready ds' nds' X_train X_test y_train y_test obj' tr m fs)
    with assms have "obj' = obj" by simp
    with choose_model_shape [OF model_ready(5)] model_ready(6) rhs
      report_and_save_shape [of L fs "[ReadCsv, Normalize, Split, LoadModel] @ tr" m X_test y_test]
    show ?thesis by auto
  qed (use assms in simp_all)
qed

theorem search_skipped_iff_forest_loaded_witness:
  "read_features toy_libs cached_world = Inr example_ds
   \<and> normalize toy_libs example_ds = Inr example_normalized
   \<and> load_model toy_libs cached_world = Inr (RandomForestClassifier ())
   \<and> files cached_world filename = Some (RegularFile ''RF'')
   \<and> pickle_loads toy_libs ''RF'' = Inr (RandomForestClassifier ())
   \<and> Search \<notin> set (trace (script toy_libs cached_world))"
proof -
  have f: "files cached_world filename = Some (RegularFile ''RF'')"
    by (simp add: cached_world_def)
  have p: "pickle_loads toy_libs ''RF'' = Inr (RandomForestClassifier ())"
    by (simp add: toy_libs_def)
  from search_skipped_iff_forest_loaded
    [OF toy_front(2) normalize_example_ds toy_split toy_load(2)] f p
  have "Search \<notin> set (trace (script toy_libs cached_world))" by blast
  with f p show ?thesis by (simp add: toy_front normalize_example_ds toy_load)
qed

subsection \<open>Writing the model file\<close>

text \<open>
  C3: the serialised model is written only if no file of that name exists. On a run that
  finds the model file present, the model file at the end is the one at the start and no
  write takes place, whatever the tuner writes in its own directory; the save step applied
  to any file system holding the file returns it unchanged; on every run the write happens
  at most once; and no path outside the tuner's directory, other than the model file, is
  changed by a run.
\<close>

theorem model_file_written_only_if_absent:
  "(isfile (files w) filename \<longrightarrow>
      files_out (script L w) filename = files w filename
      \<and> Serialize \<notin> set (trace (script L w)))
   \<and> (isfile fs filename \<longrightarrow> save_model L fs m = ([], None, fs))
   \<and> count_list (trace (script L w)) Serialize \<le> 1
   \<and> (\<not> under (norm_path (directory tuner)) p \<and> p \<noteq> filename
        \<longrightarrow> files_out (script L w) p = files w p)"
proof (intro conjI impI)
  show "count_list (trace (script L w)) Serialize \<le> 1"
    using script_trace_forms [of L w] by auto
  show "files_out (script L w) p = files w p"
    if "\<not> under (norm_path (directory tuner)) p \<and> p \<noteq> filename"
    using that by (simp add: script_other_paths)
qed (simp_all add: script_model_file save_model_present)

theorem model_file_written_only_if_absent_witness:
  "isfile (files stale_world) filename
   \<and> files_out (script toy_libs stale_world) filename = files stale_world filename
   \<and> Serialize \<notin> set (trace (script toy_libs stale_world))
   \<and> save_model toy_libs (files stale_world) () = ([], None, files stale_world)
   \<and> files_out (script toy_libs stale_world) csv_path = files stale_world csv_path
   \<and> files_out (script toy_libs stale_world) ''model/random_forest/oracle.json''
       = Some (RegularFile ''{}'')
   \<and> files stale_world ''model/random_forest/oracle.json'' = None"
proof -
  note T = model_file_written_only_if_absent
    [of stale_world toy_libs "files stale_world" "()" csv_path]
  have p: "\<not> under (norm_path (directory tuner)) csv_path \<and> csv_path \<noteq> filename"
    by (simp add: not_under_tuner_dir paths_distinct)
  have o: "files stale_world ''model/random_forest/oracle.json'' = None"
    by (simp add: stale_world_def csv_path_def filename_def)
  from T toy_isfile(3) p o script_stale(5) show ?thesis by simp
qed

subsection \<open>Exceptions\<close>

text \<open>
  C4, as stated: loading the cached model handles exactly one failure, the model file
  not existing, and every other exception propagates. This fails when the model file
  exists and unpickling it raises FileNotFoundError: the handler of lines 70 and 71
  catches it, and the run goes on to the search and ends without an exception.
\<close>

theorem missing_file_only_failure_counterexample:
  "files ghost_world filename = Some (RegularFile ''ghost'')
   \<and> pickle_loads toy_libs ''ghost'' = Inl FileNotFoundError
   \<and> raised (script toy_libs ghost_world) = None
   \<and> Search \<in> set (trace (script toy_libs ghost_world))"
  by (simp add: script_ghost) (simp add: ghost_world_def toy_libs_def)

text \<open>
  C4, amended: loading the cached model handles exactly one exception, FileNotFoundError
  raised anywhere in the load expression of line 69, by opening a model file that does
  not exist or by unpickling one that does: then \<open>best_model\<close> is \<open>None\<close> and the run falls
  back to the hyperparameter search. Every other exception of the load, and every
  exception of any other step (a missing or malformed CSV, the arithmetic of line 17, a
  missing column, the split, the search, the fit, the prediction, the metrics, the
  serialisation), propagates unhandled, and no step is entered twice.
\<close>

theorem only_file_not_found_handled:
  "distinct (trace (script L w))
   \<and> (open_rb (files w) filename = Inl FileNotFoundError \<longrightarrow> load_model L w = Inr PyNone)
   \<and> (open_rb (files w) filename = Inr b \<and> pickle_loads L b = Inl FileNotFoundError
        \<longrightarrow> load_model L w = Inr PyNone)
   \<and> (open_rb (files w) filename = Inl e \<and> e \<noteq> FileNotFoundError \<longrightarrow> load_model L w = Inl e)
   \<and> (open_rb (files w) filename = Inr b \<and> pickle_loads L b = Inl e \<and> e \<noteq> FileNotFoundError
        \<longrightarrow> load_model L w = Inl e)
   \<and> (files w csv_path = None \<longrightarrow> raised (script L w) = Some FileNotFoundError)
   \<and> (files w csv_path = Some (RegularFile b) \<and> parse_csv L b = Inl e
        \<longrightarrow> raised (script L w) = Some e)
   \<and> (read_features L w = Inl e \<longrightarrow> raised (script L w) = Some e)
   \<and> (read_features L w = Inr ds \<and> zscore_frame L ds = Inl e
        \<longrightarrow> raised (script L w) = Some e)
   \<and> (read_features L w = Inr ds \<and> zscore_frame L ds = Inr z
        \<and> c \<in> set raw_columns \<and> map_of ds c = None
        \<longrightarrow> (\<exists>c'. raised (script L w) = Some (KeyError c')))
   \<and> (read_features L w = Inr ds \<and> normalize L ds = Inr nds \<and> split_dataset L nds = Inl e
        \<longrightarrow> raised (script L w) = Some e)
   \<and> (read_features L w = Inr ds \<and> normalize L ds = Inr nds
        \<and> split_dataset L nds = Inr (X_train, X_test, y_train, y_test) \<longrightarrow>
         (load_model L w = Inr PyNone \<longrightarrow> Search \<in> set (trace (script L w)))
       \<and> (load_model L w = Inl e \<longrightarrow> raised (script L w) = Some e)
       \<and> (load_model L w = Inr obj \<and> (\<forall>m. obj \<noteq> RandomForestClassifier m)
            \<and> tuner_search L tuner (files w) X_train y_train = (Inl e, fs1)
            \<longrightarrow> raised (script L w) = Some e)
       \<and> (load_model L w = Inr obj \<and> (\<forall>m. obj \<noteq> RandomForestClassifier m)
            \<and> tuner_search L tuner (files w) X_train y_train = (Inr best_hp, fs1)
            \<and> rf_fit L (build_model best_hp) X_train y_train = Inl e
            \<longrightarrow> raised (script L w) = Some e)
       \<and> (load_model L w = Inr obj
            \<and> choose_model L obj (files w) X_train y_train = (tr, Inr m, fs) \<longrightarrow>
             (rf_predict L m X_test = Inl e \<longrightarrow> raised (script L w) = Some e)
           \<and> (rf_predict L m X_test = Inr y_pred
                \<and> print_metrics L y_test y_pred = (out, Some e)
                \<longrightarrow> raised (script L w) = Some e)
           \<and> (rf_predict L m X_test = Inr y_pred
                \<and> print_metrics L y_test y_pred = (out, None)
                \<and> files w filename = None \<and> pickle_dump L m = (bytes, Some e)
                \<longrightarrow> raised (script L w) = Some e)))"
proof (intro conjI impI; (elim conjE)?)
  show "distinct (trace (script L w))"
    using all_stages_subseq [OF script_trace_forms [of L w]] by (rule conjunct2)
next
  assume "open_rb (files w) filename = Inl FileNotFoundError"
  then show "load_model L w = Inr PyNone" by (rule load_model_caught)
next
  assume "open_rb (files w) filename = Inr b" "pickle_loads L b = Inl FileNotFoundError"
  then show "load_model L w = Inr PyNone" by (rule load_model_caught)
next
  assume "open_rb (files w) filename = Inl e" "e \<noteq> FileNotFoundError"
  then show "load_model L w = Inl e" by (rule load_model_propagates)
next
  assume "open_rb (files w) filename = Inr b" "pickle_loads L b = Inl e" "e \<noteq> FileNotFoundError"
  then show "load_model L w = Inl e" by (rule load_model_propagates)
next
  assume "files w csv_path = None"
  then show "raised (script L w) = Some FileNotFoundError"
    by (simp add: script_def read_features_cases)
next
  assume "files w csv_path = Some (RegularFile b)" "parse_csv L b = Inl e"
  then show "raised (script L w) = Some e"
    by (simp add: script_def read_features_cases)
next
  assume "read_features L w = Inl e"
  then show "raised (script L w) = Some e" by (simp add: script_def)
next
  assume "read_features L w = Inr ds" "zscore_frame L ds = Inl e"
  then show "raised (script L w) = Some e" by (simp add: script_def normalize_def)
next
  assume r: "read_features L w = Inr ds" and "zscore_frame L ds = Inr z"
    "c \<in> set raw_columns" "map_of ds c = None"
  from normalize_missing_column [OF this(2,3,4)] obtain c'
    where "normalize L ds = Inl (KeyError c')" by blast
  with r have "raised (script L w) = Some (KeyError c')" by (simp add: script_def)
  then show "\<exists>c'. raised (script L w) = Some (KeyError c')" ..
next
  assume "read_features L w = Inr ds" "normalize L ds = Inr nds" "split_dataset L nds = Inl e"
  then show "raised (script L w) = Some e" by (simp add: script_def)
next
  assume front: "read_features L w = Inr ds" "normalize L ds = Inr nds"
    "split_dataset L nds = Inr (X_train, X_test, y_train, y_test)"
  {
    assume l: "load_model L w = Inr PyNone"
    obtain tr0 r fs0 where c: "choose_model L PyNone (files w) X_train y_train = (tr0, r, fs0)"
      by (cases "choose_model L PyNone (files w) X_train y_train") auto
    from choose_model_shape [OF c] have tr0: "tr0 = [Search] \<or> tr0 = [Search, Fit]" by auto
    show "Search \<in> set (trace (script L w))"
    proof (cases r)
      case (Inl e')
      with front l c tr0 show ?thesis by (auto simp: script_def)
    next
      case (Inr m')
      with front l c tr0
        report_and_save_shape [of L fs0 "[ReadCsv, Normalize, Split, LoadModel] @ tr0" m' X_test y_test]
      show ?thesis by (auto simp: script_def)
    qed
  next
    assume "load_model L w = Inl e"
    with front show "raised (script L w) = Some e" by (simp add: script_def)
  next
    assume "load_model L w = Inr obj" "\<forall>m. obj \<noteq> RandomForestClassifier m"
      "tuner_search L tuner (files w) X_train y_train = (Inl e, fs1)"
    with front show "raised (script L w) = Some e"
      by (simp add: script_def choose_model_search search_and_fit_def)
  next
    assume "load_model L w = Inr obj" "\<forall>m. obj \<noteq> RandomForestClassifier m"
      "tuner_search L tuner (files w) X_train y_train = (Inr best_hp, fs1)"
      "rf_fit L (build_model best_hp) X_train y_train = Inl e"
    with front show "raised (script L w) = Some e"
      by (simp add: script_def choose_model_search search_and_fit_def tuner_def)
  next
    assume ready: "load_model L w = Inr obj"
      "choose_model L obj (files w) X_train y_train = (tr, Inr m, fs)"
    {
      assume "rf_predict L m X_test = Inl e"
      with front ready show "raised (script L w) = Some e"
        by (simp add: script_def report_and_save_raised evaluate_model_raises)
    next
      assume "rf_predict L m X_test = Inr y_pred" "print_metrics L y_test y_pred = (out, Some e)"
      with front ready show "raised (script L w) = Some e"
        by (simp add: script_def report_and_save_raised(1) evaluate_model_raises(2))
    next
      assume ev: "rf_predict L m X_test = Inr y_pred"
        "print_metrics L y_test y_pred = (out, None)"
        and none: "files w filename = None" and dump: "pickle_dump L m = (bytes, Some e)"
      from choose_model_keeps_model_file(1) [OF ready(2)] none
      have "fs filename = None" by simp
      then have "save_model L fs m = ([Serialize], Some e, fs(filename \<mapsto> RegularFile bytes))"
        using dump by (rule save_model_raises)
      with evaluate_model_raises(2) [OF ev] front ready
      show "raised (script L w) = Some e"
        by (simp add: script_def report_and_save_raised(2))
    }
  }
qed

theorem only_file_not_found_handled_witness:
  "files fresh_world filename = None
   \<and> load_model toy_libs fresh_world = Inr PyNone
   \<and> Search \<in> set (trace (script toy_libs fresh_world))
   \<and> pickle_loads toy_libs ''ghost'' = Inl FileNotFoundError
   \<and> load_model toy_libs ghost_world = Inr PyNone
   \<and> files empty_world csv_path = None
   \<and> raised (script toy_libs empty_world) = Some FileNotFoundError
   \<and> parse_csv toy_libs ''garbage'' = Inl (OtherError ''ParserError'')
   \<and> raised (script toy_libs malformed_world) = Some (OtherError ''ParserError'')
   \<and> raised (script toy_libs text_world) = Some (OtherError ''TypeError'')
   \<and> map_of [(''Class'', [Num 0, Num 1])] ''Length'' = None
   \<and> (\<exists>c'. raised (script toy_libs short_world) = Some (KeyError c'))
   \<and> load_model toy_libs junk_world = Inl (OtherError ''UnpicklingError'')
   \<and> raised (script toy_libs junk_world) = Some (OtherError ''UnpicklingError'')
   \<and> load_model toy_libs dir_world = Inl IsADirectoryError
   \<and> raised (script toy_libs dir_world) = Some IsADirectoryError
   \<and> raised (script (failing_libs Split) fresh_world) = Some (OtherError ''ValueError'')
   \<and> raised (script (failing_libs Search) fresh_world) = Some (OtherError ''RuntimeError'')
   \<and> raised (script (failing_libs Fit) fresh_world) = Some (OtherError ''InvalidParameterError'')
   \<and> raised (script (failing_libs Evaluate) fresh_world) = Some (OtherError ''NotFittedError'')
   \<and> raised (script (failing_libs Serialize) fresh_world) = Some (OtherError ''PicklingError'')"
proof -
  let ?Xtr = "map (\<lambda>(c, col). (c, take 2 col)) (AList.delete ''Class'' example_normalized)"
  let ?Xte = "map (\<lambda>(c, col). (c, drop 2 col)) (AList.delete ''Class'' example_normalized)"
  let ?ytr = "[Num 0, Num 1] :: column" and ?yte = "[Num 1] :: column"
  let ?h = "\<lparr>n_estimators = 101, criterion = ''gini'', max_depth = 5,
             min_samples_split = 2, max_features = ''log2'',
             max_leaf_nodes = 12, max_samples = 1 / 2\<rparr>"
  let ?fs1 = "(files fresh_world)(''model/random_forest/oracle.json'' \<mapsto> RegularFile ''{}'')"
  have none: "files fresh_world filename = None"
    by (rule fresh_no_model)
  note U = only_file_not_found_handled
  note T = U [where ds = example_ds and nds = example_normalized
       and X_train = ?Xtr and X_test = ?Xte and y_train = ?ytr and y_test = ?yte]
  have a: "load_model toy_libs fresh_world = Inr PyNone"
    using T [where w = fresh_world and L = toy_libs] none by (simp add: open_rb_def)
  have b: "Search \<in> set (trace (script toy_libs fresh_world))"
    using T [where w = fresh_world and L = toy_libs] a
    by (simp add: toy_front normalize_example_ds toy_split)
  have g0: "pickle_loads toy_libs ''ghost'' = Inl FileNotFoundError"
    by (simp add: toy_libs_def)
  have g1: "load_model toy_libs ghost_world = Inr PyNone"
    using T [where w = ghost_world and L = toy_libs and b = "''ghost''"] g0
    by (simp add: open_rb_def ghost_world_def)
  have c0: "files empty_world csv_path = None"
    by (simp add: empty_world_def)
  have c1: "raised (script toy_libs empty_world) = Some FileNotFoundError"
    using T [where w = empty_world and L = toy_libs] c0 by simp
  have c2: "parse_csv toy_libs ''garbage'' = Inl (OtherError ''ParserError'')"
    by (simp add: toy_libs_def)
  have c: "raised (script toy_libs malformed_world) = Some (OtherError ''ParserError'')"
    using T [where w = malformed_world and L = toy_libs and e = "OtherError ''ParserError''"
        and b = "''garbage''"] c2
    by (simp add: malformed_world_def)
  have t: "raised (script toy_libs text_world) = Some (OtherError ''TypeError'')"
    using U [where w = text_world and L = toy_libs and e = "OtherError ''TypeError''"
        and ds = "[(''Url'', [Str ''a.b'', Str ''c.d''])]"]
    by (simp add: toy_failures)
  have d0: "map_of [(''Class'', [Num 0, Num 1])] ''Length'' = None"
    by simp
  from short_zscore obtain z
    where z: "zscore_frame toy_libs [(''Class'', [Num 0, Num 1])] = Inr z" ..
  have d: "\<exists>c'. raised (script toy_libs short_world) = Some (KeyError c')"
    using U [where w = short_world and L = toy_libs and c = "''Length''"
        and ds = "[(''Class'', [Num 0, Num 1])]" and z = z] z
    by (simp add: toy_failures raw_columns_def)
  have e1: "load_model toy_libs junk_world = Inl (OtherError ''UnpicklingError'')"
    using T [where w = junk_world and L = toy_libs and e = "OtherError ''UnpicklingError''"
        and b = "''junk''"]
    by (simp add: open_rb_def junk_world_def toy_libs_def)
  have e: "raised (script toy_libs junk_world) = Some (OtherError ''UnpicklingError'')"
    using T [where w = junk_world and L = toy_libs and e = "OtherError ''UnpicklingError''"] e1
    by (simp add: toy_failures normalize_example_ds toy_split)
  have e2: "load_model toy_libs dir_world = Inl IsADirectoryError"
    using T [where w = dir_world and L = toy_libs and e = IsADirectoryError]
    by (simp add: open_rb_def dir_world_def)
  have e3: "raised (script toy_libs dir_world) = Some IsADirectoryError"
    using T [where w = dir_world and L = toy_libs and e = IsADirectoryError] e2
    by (simp add: toy_failures normalize_example_ds toy_split)
  have f: "raised (script (failing_libs Split) fresh_world) = Some (OtherError ''ValueError'')"
    using T [where w = fresh_world and L = "failing_libs Split"
        and e = "OtherError ''ValueError''"]
    by (simp add: failing_front failing_normalize normalize_example_ds failing_split)
  have g: "raised (script (failing_libs Search) fresh_world) = Some (OtherError ''RuntimeError'')"
    using T [where w = fresh_world and L = "failing_libs Search"
        and e = "OtherError ''RuntimeError''" and obj = PyNone and ?fs1.0 = "files fresh_world"]
    by (simp add: failing_front failing_normalize normalize_example_ds failing_split
        failing_calls)
  have h: "raised (script (failing_libs Fit) fresh_world)
           = Some (OtherError ''InvalidParameterError'')"
    using T [where w = fresh_world and L = "failing_libs Fit"
        and e = "OtherError ''InvalidParameterError''" and obj = PyNone and best_hp = ?h
        and ?fs1.0 = ?fs1]
    by (simp add: failing_front failing_normalize normalize_example_ds failing_split
        failing_calls)
  have i: "raised (script (failing_libs Evaluate) fresh_world)
           = Some (OtherError ''NotFittedError'')"
    using T [where w = fresh_world and L = "failing_libs Evaluate"
        and e = "OtherError ''NotFittedError''" and obj = PyNone and tr = "[Search, Fit]"
        and m = "()" and fs = "tuner_writes (files fresh_world) ?fs1"]
    by (simp add: failing_front failing_normalize normalize_example_ds failing_split
        failing_choose failing_calls)
  have j: "raised (script (failing_libs Serialize) fresh_world)
           = Some (OtherError ''PicklingError'')"
    using T [where w = fresh_world and L = "failing_libs Serialize"
        and e = "OtherError ''PicklingError''" and obj = PyNone and tr = "[Search, Fit]"
        and m = "()" and fs = "tuner_writes (files fresh_world) ?fs1"
        and y_pred = "[Num 1]" and out = "[''F2-Score: 1.0'']" and bytes = "''RF''"] none
    by (simp add: failing_front failing_normalize normalize_example_ds failing_split
        failing_choose failing_calls)
  from none a b g0 g1 c0 c1 c2 c t d0 d e1 e e2 e3 f g h i j show ?thesis
    by (intro conjI)
qed

subsection \<open>Order of the stages\<close>

text \<open>
  C6, as stated: on every run the script executes, in this order, read, normalise, split,
  search, fit, evaluate and serialise. This fails in the world with a cached random
  forest: the run ends without an exception and executes neither search, fit nor
  serialise.
\<close>

theorem fixed_seven_stages_counterexample:
  "raised (script toy_libs cached_world) = None
   \<and> trace (script toy_libs cached_world) = [ReadCsv, Normalize, Split, LoadModel, Evaluate]"
  by (simp add: script_cached)

text \<open>
  C6, amended: on every run the stages entered are, in this order and with none repeated,
  among read, normalise, split, load the cached model, search, fit, evaluate, serialise.
  A run that ends without an exception executes read, normalise, split and load, then
  search and fit unless the loaded object is a \<open>RandomForestClassifier\<close>, then evaluate,
  then serialise unless the model file is present.
\<close>

theorem stages_in_order:
  "subseq (trace (script L w)) all_stages
   \<and> distinct (trace (script L w))
   \<and> (raised (script L w) = None \<longrightarrow>
        trace (script L w) =
          [ReadCsv, Normalize, Split, LoadModel]
          @ (case load_model L w of Inr (RandomForestClassifier m) \<Rightarrow> [] | _ \<Rightarrow> [Search, Fit])
          @ [Evaluate]
          @ (if isfile (files w) filename then [] else [Serialize]))"
proof -
  have "trace (script L w) =
          [ReadCsv, Normalize, Split, LoadModel]
          @ (case load_model L w of Inr (RandomForestClassifier m) \<Rightarrow> [] | _ \<Rightarrow> [Search, Fit])
          @ [Evaluate]
          @ (if isfile (files w) filename then [] else [Serialize])"
    if ok: "raised (script L w) = None"
  proof (cases rule: script_cases [of L w])
    case (model_ready ds nds X_train X_test y_train y_test obj tr m fs)
    from choose_model_shape [OF model_ready(5)]
    have tr: "tr = (case obj of RandomForestClassifier m \<Rightarrow> [] | _ \<Rightarrow> [Search, Fit])"
      by (cases obj) auto
    from choose_model_keeps_model_file(2) [OF model_ready(5)]
    have same: "isfile fs filename = isfile (files w) filename" .
    from ok model_ready(6)
      report_and_save_shape [of L fs "[ReadCsv, Normalize, Split, LoadModel] @ tr" m X_test y_test]
    have "trace (script L w) = [ReadCsv, Normalize, Split, LoadModel] @ tr @ [Evaluate]
            @ (if isfile fs filename then [] else [Serialize])"
      by auto
    with tr same model_ready(4) show ?thesis by simp
  qed (use ok in simp_all)
  note full = this
  from all_stages_subseq [OF script_trace_forms [of L w]]
  have s1: "subseq (trace (script L w)) all_stages" and s2: "distinct (trace (script L w))"
    by (rule conjunct1, rule conjunct2)
  show ?thesis
  proof (intro conjI impI)
    show "subseq (trace (script L w)) all_stages" by (rule s1)
    show "distinct (trace (script L w))" by (rule s2)
  qed (rule full)
qed

theorem stages_in_order_witness:
  "raised (script toy_libs fresh_world) = None
   \<and> trace (script toy_libs fresh_world) =
       [ReadCsv, Normalize, Split, LoadModel, Search, Fit, Evaluate, Serialize]
   \<and> subseq (trace (script toy_libs fresh_world)) all_stages"
proof -
  have ok: "raised (script toy_libs fresh_world) = None"
    by (simp add: script_fresh)
  note T = stages_in_order [of toy_libs fresh_world]
  from T have s: "subseq (trace (script toy_libs fresh_world)) all_stages"
    by (rule conjunct1)
  from T ok have "trace (script toy_libs fresh_world) =
      [ReadCsv, Normalize, Split, LoadModel, Search, Fit, Evaluate, Serialize]"
    by (simp add: toy_load toy_isfile)
  with ok s show ?thesis by (intro conjI)
qed

subsection \<open>Command line and environment\<close>

text \<open>
  C7, as stated: two runs that differ only in command-line arguments or environment
  variables behave identically. This fails for two worlds with the same files and
  arguments that differ in the variable \<open>MPLBACKEND\<close>: with the value \<open>bogus\<close> the import
  of line 4 raises and nothing else runs; without it the run completes.
\<close>

theorem argument_and_environment_independence_counterexample:
  "files bogus_world = files fresh_world
   \<and> argv bogus_world = argv fresh_world
   \<and> environ bogus_world ''MPLBACKEND'' = Some ''bogus''
   \<and> environ fresh_world ''MPLBACKEND'' = None
   \<and> raised (run toy_install fresh_world) = None
   \<and> raised (run toy_install bogus_world) = Some (OtherError ''ValueError'')"
  by (simp add: run_def toy_install_cases toy_imports script_fresh)
     (simp add: bogus_world_def fresh_world_def)

text \<open>
  C7, amended: the input path and the model path are the fixed relative constants
  \<open>data/features.csv\<close> and \<open>model.sav\<close>, and the statements of the script read neither
  the command line nor the environment: lines 13 to 101 are determined by the file system
  and the behaviour of the libraries, the read by the node at the input path and the load
  by the node at the model path. Two runs that differ only in command-line arguments or
  environment variables behave identically whenever the imported libraries, which may
  read both, behave the same in the two processes.
\<close>

theorem environment_reaches_libraries_only:
  "csv_path = ''data/features.csv''
   \<and> filename = ''model.sav''
   \<and> script L (w\<lparr>argv := a, environ := env\<rparr>) = script L w
   \<and> (files w1 = files w2 \<and> P (argv w1) (environ w1) = P (argv w2) (environ w2)
        \<longrightarrow> run P w1 = run P w2)
   \<and> (files w1 csv_path = files w2 csv_path \<longrightarrow> read_features L w1 = read_features L w2)
   \<and> (files w1 filename = files w2 filename \<longrightarrow> load_model L w1 = load_model L w2)"
proof (intro conjI impI; (elim conjE)?)
  show "csv_path = ''data/features.csv''" by (simp add: csv_path_def)
  show "filename = ''model.sav''" by (simp add: filename_def)
  show "script L (w\<lparr>argv := a, environ := env\<rparr>) = script L w"
    by (rule script_files_only) simp
  show "run P w1 = run P w2"
    if "files w1 = files w2" "P (argv w1) (environ w1) = P (argv w2) (environ w2)"
    using that script_files_only [OF that(1), of "P (argv w2) (environ w2)"]
    by (simp add: run_def Let_def split: option.splits)
  show "read_features L w1 = read_features L w2" if "files w1 csv_path = files w2 csv_path"
    using that by (simp add: read_features_def open_rb_def)
  show "load_model L w1 = load_model L w2" if "files w1 filename = files w2 filename"
    using that by (simp add: load_model_def open_rb_def)
qed

theorem environment_reaches_libraries_only_witness:
  "files flagged_world = files fresh_world
   \<and> argv flagged_world \<noteq> argv fresh_world
   \<and> environ flagged_world \<noteq> environ fresh_world
   \<and> toy_install (argv flagged_world) (environ flagged_world)
       = toy_install (argv fresh_world) (environ fresh_world)
   \<and> run toy_install flagged_world = run toy_install fresh_world
   \<and> read_features toy_libs flagged_world = read_features toy_libs fresh_world
   \<and> load_model toy_libs flagged_world = load_model toy_libs fresh_world"
proof -
  have f: "files flagged_world = files fresh_world"
    by (simp add: flagged_world_def fresh_world_def)
  have "environ flagged_world ''MODEL_PATH'' \<noteq> environ fresh_world ''MODEL_PATH''"
    by (simp add: flagged_world_def fresh_world_def)
  then have e: "environ flagged_world \<noteq> environ fresh_world" by auto
  have a: "argv flagged_world \<noteq> argv fresh_world"
    by (simp add: flagged_world_def fresh_world_def)
  have p: "toy_install (argv flagged_world) (environ flagged_world)
       = toy_install (argv fresh_world) (environ fresh_world)"
    by (simp add: toy_install_cases)
  from environment_reaches_libraries_only [where ?w1.0 = flagged_world and ?w2.0 = fresh_world
      and L = toy_libs and P = toy_install] f p
  have "run toy_install flagged_world = run toy_install fresh_world
        \<and> read_features toy_libs flagged_world = read_features toy_libs fresh_world
        \<and> load_model toy_libs flagged_world = load_model toy_libs fresh_world"
    by simp
  with f a e p show ?thesis by simp
qed

subsection \<open>A model file that holds something else\<close>

text \<open>
  C8: if the model file exists but unpickles to an object that is not a
  \<open>RandomForestClassifier\<close>, the model file is left as it was and nothing is serialised.
  A run that ends without an exception has called the tuner's search on the training
  data, fitted a classifier with the hyperparameters the search returned, and printed the
  metrics of that classifier's predictions on the test data; the only files changed are
  those the tuner wrote in its directory, and the fitted model is dropped.
\<close>

theorem stale_model_file_never_replaced:
  assumes "files w filename = Some (RegularFile b)"
    and "pickle_loads L b = Inr obj"
    and "\<forall>m. obj \<noteq> RandomForestClassifier m"
  shows "files_out (script L w) filename = files w filename
         \<and> Serialize \<notin> set (trace (script L w))
         \<and> (raised (script L w) = None \<longrightarrow>
              (\<exists>ds nds X_train X_test y_train y_test best_hp fs1 m y_pred out.
                 read_features L w = Inr ds
                 \<and> normalize L ds = Inr nds
                 \<and> split_dataset L nds = Inr (X_train, X_test, y_train, y_test)
                 \<and> tuner_search L tuner (files w) X_train y_train = (Inr best_hp, fs1)
                 \<and> rf_fit L (build_model best_hp) X_train y_train = Inr m
                 \<and> rf_predict L m X_test = Inr y_pred
                 \<and> print_metrics L y_test y_pred = (out, None)
                 \<and> stdout (script L w) = ''Performance on test set 12:'' # out
                 \<and> trace (script L w)
                     = [ReadCsv, Normalize, Split, LoadModel, Search, Fit, Evaluate]
                 \<and> files_out (script L w) = tuner_writes (files w) fs1))"
proof -
  have present: "isfile (files w) filename"
    using assms(1) by (simp add: isfile_def)
  have loaded: "load_model L w = Inr obj"
    using assms(1,2) by (rule load_model_loaded)
  have "\<exists>ds nds X_train X_test y_train y_test best_hp fs1 m y_pred out.
          read_features L w = Inr ds
          \<and> normalize L ds = Inr nds
          \<and> split_dataset L nds = Inr (X_train, X_test, y_train, y_test)
          \<and> tuner_search L tuner (files w) X_train y_train = (Inr best_hp, fs1)
          \<and> rf_fit L (build_model best_hp) X_train y_train = Inr m
          \<and> rf_predict L m X_test = Inr y_pred
          \<and> print_metrics L y_test y_pred = (out, None)
          \<and> stdout (script L w) = ''Performance on test set 12:'' # out
          \<and> trace (script L w) = [ReadCsv, Normalize, Split, LoadModel, Search, Fit, Evaluate]
          \<and> files_out (script L w) = tuner_writes (files w) fs1"
    if ok: "raised (script L w) = None"
  proof (cases rule: script_cases [of L w])
    case (model_ready ds nds X_train X_test y_train y_test obj' tr m fs)
    with loaded have obj: "obj' = obj" by simp
    from model_ready(5) obj assms(3)
    have sf: "search_and_fit L (files w) X_train y_train = (tr, Inr m, fs)"
      by (simp add: choose_model_search)
    from search_and_fit_shape [OF sf] obtain best_hp fs1
      where search: "tuner_search L tuner (files w) X_train y_train = (Inr best_hp, fs1)"
        and tr: "tr = [Search, Fit]"
        and fit: "rf_fit L (build_model best_hp) X_train y_train = Inr m"
        and fs: "fs = tuner_writes (files w) fs1"
      by auto
    from present fs have "isfile fs filename" by simp
    from report_and_save_done [OF _ this, of L "[ReadCsv, Normalize, Split, LoadModel] @ tr"
        m X_test y_test] ok model_ready(6)
    obtain y_pred out where "rf_predict L m X_test = Inr y_pred"
      "print_metrics L y_test y_pred = (out, None)"
      "stdout (script L w) = ''Performance on test set 12:'' # out"
      "trace (script L w) = ([ReadCsv, Normalize, Split, LoadModel] @ tr) @ [Evaluate]"
      "files_out (script L w) = fs"
      by auto
    with model_ready(1-3) search fit tr fs show ?thesis by auto
  qed (use ok in simp_all)
  with script_model_file [OF present, of L] show ?thesis by blast
qed

theorem stale_model_file_never_replaced_witness:
  "files stale_world filename = Some (RegularFile ''dict'')
   \<and> pickle_loads toy_libs ''dict'' = Inr (OtherObject ''dict'')
   \<and> raised (script toy_libs stale_world) = None
   \<and> files_out (script toy_libs stale_world) filename = files stale_world filename
   \<and> Serialize \<notin> set (trace (script toy_libs stale_world))
   \<and> stdout (script toy_libs stale_world) = [''Performance on test set 12:'', ''F2-Score: 1.0'']
   \<and> trace (script toy_libs stale_world) =
       [ReadCsv, Normalize, Split, LoadModel, Search, Fit, Evaluate]"
proof -
  have f: "files stale_world filename = Some (RegularFile ''dict'')"
    by (simp add: stale_world_def)
  have p: "pickle_loads toy_libs ''dict'' = Inr (OtherObject ''dict'')"
    by (simp add: toy_libs_def)
  have n: "\<forall>m. OtherObject ''dict'' \<noteq> RandomForestClassifier (m::unit)"
    by simp
  have ok: "raised (script toy_libs stale_world) = None"
    by (simp add: script_stale)
  note T = stale_model_file_never_replaced [OF f p n]
  from T have a: "files_out (script toy_libs stale_world) filename = files stale_world filename"
    by (rule conjunct1)
  from T have b: "Serialize \<notin> set (trace (script toy_libs stale_world))"
    by (rule conjunct2 [THEN conjunct1])
  from T ok have d: "trace (script toy_libs stale_world)
       = [ReadCsv, Normalize, Split, LoadModel, Search, Fit, Evaluate]"
    by auto
  from T ok obtain y_pred out where "print_metrics toy_libs [Num 1] y_pred = (out, None)"
    "stdout (script toy_libs stale_world) = ''Performance on test set 12:'' # out"
    by (auto simp: toy_split toy_front normalize_example_ds)
  then have c: "stdout (script toy_libs stale_world)
      = [''Performance on test set 12:'', ''F2-Score: 1.0'']"
    by (simp add: toy_search)
  from f p ok a b c d show ?thesis by (intro conjI)
qed

end
